theory Spec2Isabelle
  imports Main "HOL-Library.Word"
begin

section \<open>Package build: version strings\<close>

text \<open>
  \<^verbatim>\<open>strings.Split(str, ".")\<close> with a one-character separator: the pieces between the
  separators, in order. A string without the separator (the empty string too) gives one
  piece.
\<close>

fun Split :: "string \<Rightarrow> char \<Rightarrow> string list" where
  "Split [] sep = [[]]"
| "Split (c # cs) sep =
     (if c = sep then [] # Split cs sep
      else (case Split cs sep of
              [] \<Rightarrow> [[c]]
            | w # ws \<Rightarrow> (c # w) # ws))"

datatype NumError = ErrSyntax | ErrRange

definition isDigit :: "char \<Rightarrow> bool" where
  "isDigit c = (48 \<le> (of_char c :: nat) \<and> (of_char c :: nat) \<le> 57)"

text \<open>The width of Go's \<^verbatim>\<open>int\<close> on the 64-bit targets the node is built for.\<close>

definition intSize :: nat where
  "intSize = 64"

text \<open>
  The digit loop of \<^verbatim>\<open>strconv.ParseUint\<close> in base 10, one character at a time from
  the left: a character that is not a decimal digit is a syntax error, a digit that takes
  the value beyond the largest unsigned value is a range error, and the first of the two
  ends the loop.
\<close>

fun parseUint :: "nat \<Rightarrow> string \<Rightarrow> NumError + nat" where
  "parseUint n [] = Inr n"
| "parseUint n (c # cs) =
     (if \<not> isDigit c then Inl ErrSyntax
      else if 2 ^ intSize - 1 < n * 10 + ((of_char c :: nat) - 48) then Inl ErrRange
      else parseUint (n * 10 + ((of_char c :: nat) - 48)) cs)"

text \<open>
  \<^verbatim>\<open>strconv.Atoi\<close> of the Go standard library, that is \<^verbatim>\<open>ParseInt(s, 10, 0)\<close>: the
  empty string is a syntax error; an optional sign \<^verbatim>\<open>+\<close> or \<^verbatim>\<open>-\<close> is taken off and
  the rest, which must not be empty, goes through the digit loop; a value outside the
  range of \<^verbatim>\<open>int\<close> is a range error.
\<close>

definition Atoi :: "string \<Rightarrow> NumError + int" where
  "Atoi s =
     (case s of
        [] \<Rightarrow> Inl ErrSyntax
      | c # cs \<Rightarrow>
          (let neg = (c = CHR ''-'');
               ds = (if c = CHR ''+'' \<or> c = CHR ''-'' then cs else s)
           in if ds = [] then Inl ErrSyntax
              else (case parseUint 0 ds of
                      Inl err \<Rightarrow> Inl err
                    | Inr un \<Rightarrow>
                        if \<not> neg \<and> 2 ^ (intSize - 1) \<le> un then Inl ErrRange
                        else if neg \<and> 2 ^ (intSize - 1) < un then Inl ErrRange
                        else Inr (if neg then - int un else int un))))"

text \<open>The loop of \<^verbatim>\<open>IsVersion\<close> over the pieces: the first piece that fails to parse ends it.\<close>

fun IsVersion_loop :: "string list \<Rightarrow> bool" where
  "IsVersion_loop [] = True"
| "IsVersion_loop (n # ns) =
     (case Atoi n of
        Inl err \<Rightarrow> False
      | Inr _ \<Rightarrow> IsVersion_loop ns)"

definition IsVersion :: "string \<Rightarrow> bool" where
  "IsVersion str = IsVersion_loop (Split str CHR ''.'')"

section \<open>Package consensus: block acceptance\<close>

subsection \<open>Data\<close>

type_synonym BlockID = nat
type_synonym Timestamp = "64 word"
type_synonym BlockHeight = "64 word"
type_synonym Target = nat
type_synonym bytes = "nat list"

text \<open>
  The types of package \<^verbatim>\<open>types\<close> that the code uses: timestamps and block heights are
  unsigned 64-bit integers there; identifiers, targets and byte strings are kept
  abstract as numbers. A block, as far as this file reads it: the parent reference and
  the timestamp; the rest of the header and the transactions are \<open>Contents\<close>.
\<close>

record Block =
  ParentID :: BlockID
  Timestamp :: Timestamp
  Contents :: nat

record processedBlock =
  Block :: Block
  Height :: BlockHeight
  ChildTarget :: Target

record changeEntry =
  revertedBlocks :: "BlockID list"
  appliedBlocks :: "BlockID list"

text \<open>
  The error values of the package (\<open>errFutureTimestamp\<close>, \<open>ErrBlockKnown\<close> and
  \<open>ErrNonExtendingBlock\<close> are declared elsewhere and compared by identity here);
  \<open>errorsNew\<close> is an error made on the spot by \<^verbatim>\<open>errors.New\<close>, \<open>errExternal\<close> one that a
  collaborator returns.
\<close>

datatype error =
    errDoSBlock
  | errNoBlockMap
  | errInconsistentSet
  | errOrphan
  | ErrBlockKnown
  | ErrNonExtendingBlock
  | errFutureTimestamp
  | errorsNew string
  | errExternal string

datatype panic_value = PanicError error | PanicString string

datatype 'a outcome = Returns 'a | Panics panic_value

text \<open>
  What an acceptance does besides returning: the operations on the lock \<open>cs.mu\<close>, the
  transactions it opens and how they end, the reads and calls of header validation, the
  goroutines it starts and the update it sends to the subscribers, in the order the code
  performs them.
\<close>

datatype event =
    MuLock
  | MuUnlock
  | MuDemote
  | MuDemotedUnlock
  | DbView
  | DbUpdate
  | TxCommit
  | TxRollback
  | InconsistencyDetected
  | DosBlocksLookup BlockID
  | TxBucketBlockMap
  | BlockMapGet BlockID
  | MarshalerUnmarshal bytes
  | MinimumValidChildTimestamp
  | ValidateBlockCall
  | GoSleepAcceptBlock Block
  | ReadlockUpdateSubscribers changeEntry
  | GoBroadcast Block

text \<open>
  The functions and values this file uses and does not define: the block's identifier,
  the store's accessors, the marshaler, the block rule helper, the block validator, the
  tree operations and the build flag. The store is any type \<open>'db\<close>; a transaction is
  the store's contents as the transaction sees them.
\<close>

record 'db env =
  DEBUG :: bool
  ID :: "Block \<Rightarrow> BlockID"
  FutureThreshold :: Timestamp
  inconsistencyDetected :: "'db \<Rightarrow> bool"
  BucketBlockMap :: "'db \<Rightarrow> (BlockID \<Rightarrow> bytes option) option"
  Unmarshal :: "bytes \<Rightarrow> error + processedBlock"
  minimumValidChildTimestamp :: "(BlockID \<Rightarrow> bytes option) \<Rightarrow> processedBlock \<Rightarrow> Timestamp"
  ValidateBlock :: "Block \<Rightarrow> Timestamp \<Rightarrow> Target \<Rightarrow> BlockHeight \<Rightarrow> error option"
  getBlockMap :: "'db \<Rightarrow> BlockID \<Rightarrow> processedBlock option \<times> error option"
  currentProcessedBlock :: "'db \<Rightarrow> processedBlock"
  newChild :: "'db \<Rightarrow> processedBlock option \<Rightarrow> Block \<Rightarrow> processedBlock \<times> 'db"
  heavierThan :: "processedBlock \<Rightarrow> processedBlock \<Rightarrow> bool"
  forkBlockchain :: "'db \<Rightarrow> processedBlock \<Rightarrow> error + (processedBlock list \<times> processedBlock list \<times> 'db)"

record 'db ConsensusSet =
  db :: 'db
  dosBlocks :: "BlockID set"
  changeLog :: "changeEntry list"
  events :: "event list"

definition emit :: "event list \<Rightarrow> 'db ConsensusSet \<Rightarrow> 'db ConsensusSet" where
  "emit es cs = cs\<lparr>events := events cs @ es\<rparr>"

subsection \<open>validateHeader\<close>

definition validateHeader ::
  "'db env \<Rightarrow> 'db ConsensusSet \<Rightarrow> 'db \<Rightarrow> Block \<Rightarrow> event list \<times> error option" where
  "validateHeader E cs tx b =
     (let id = ID E b in
      if id \<in> dosBlocks cs then ([DosBlocksLookup id], Some errDoSBlock)
      else
        (case BucketBlockMap E tx of
           None \<Rightarrow> ([DosBlocksLookup id, TxBucketBlockMap], Some errNoBlockMap)
         | Some blockMap \<Rightarrow>
             if blockMap id \<noteq> None
             then ([DosBlocksLookup id, TxBucketBlockMap, BlockMapGet id], Some ErrBlockKnown)
             else
               (let parentID = ParentID b in
                case blockMap parentID of
                  None \<Rightarrow>
                    ([DosBlocksLookup id, TxBucketBlockMap, BlockMapGet id,
                      BlockMapGet parentID], Some errOrphan)
                | Some parentBytes \<Rightarrow>
                    (case Unmarshal E parentBytes of
                       Inl err \<Rightarrow>
                         ([DosBlocksLookup id, TxBucketBlockMap, BlockMapGet id,
                           BlockMapGet parentID, MarshalerUnmarshal parentBytes], Some err)
                     | Inr parent \<Rightarrow>
                         (let minTimestamp = minimumValidChildTimestamp E blockMap parent in
                          ([DosBlocksLookup id, TxBucketBlockMap, BlockMapGet id,
                            BlockMapGet parentID, MarshalerUnmarshal parentBytes,
                            MinimumValidChildTimestamp, ValidateBlockCall],
                           ValidateBlock E b minTimestamp (ChildTarget parent)
                             (Height parent + 1)))))))"

subsection \<open>addBlockToTree\<close>

text \<open>
  \<^verbatim>\<open>cs.db.Update\<close> runs the function on a read-write transaction and commits when it
  returns no error (the commit itself is taken to succeed); an error or a panic rolls
  the transaction back, and the store is as before. The Go function returns
  \<^verbatim>\<open>(nil, nil, err)\<close> on an error: \<open>Inl err\<close> here. The first \<open>case\<close> is
  \<^verbatim>\<open>if build.DEBUG && err != nil { panic(err) }\<close>: without \<open>DEBUG\<close> a failed
  \<open>getBlockMap\<close> goes on with the \<open>pb\<close> it returned.
\<close>

definition addBlockToTree ::
  "'db env \<Rightarrow> 'db ConsensusSet \<Rightarrow> Block \<Rightarrow>
     (error + processedBlock list \<times> processedBlock list) outcome \<times> 'db ConsensusSet" where
  "addBlockToTree E cs b =
     (let tx = db cs;
          (pb, err) = getBlockMap E tx (ParentID b)
      in case (if DEBUG E then err else None) of
           Some e \<Rightarrow> (Panics (PanicError e), emit [DbUpdate, TxRollback] cs)
         | None \<Rightarrow>
             (let currentNode = currentProcessedBlock E tx;
                  (newNode, tx1) = newChild E tx pb b;
                  nonExtending = (\<not> heavierThan E newNode currentNode)
              in if nonExtending
                 then (Returns (Inl ErrNonExtendingBlock),
                       emit [DbUpdate, TxCommit] (cs\<lparr>db := tx1\<rparr>))
                 else
                   (case forkBlockchain E tx1 newNode of
                      Inl err \<Rightarrow> (Returns (Inl err), emit [DbUpdate, TxRollback] cs)
                    | Inr (reverted, applied, tx2) \<Rightarrow>
                        (Returns (Inr (reverted, applied)),
                         emit [DbUpdate, TxCommit] (cs\<lparr>db := tx2\<rparr>)))))"

subsection \<open>AcceptBlock\<close>

text \<open>
  The function run inside \<^verbatim>\<open>cs.db.View\<close>: the consistency check, then header validation;
  on \<open>errFutureTimestamp\<close> it starts the goroutine that sleeps and accepts the block again.
\<close>

definition viewBody ::
  "'db env \<Rightarrow> 'db ConsensusSet \<Rightarrow> 'db \<Rightarrow> Block \<Rightarrow> event list \<times> error option" where
  "viewBody E cs tx b =
     (if inconsistencyDetected E tx
      then ([InconsistencyDetected], Some (errorsNew ''inconsistent database''))
      else
        (let (evs, err) = validateHeader E cs tx b in
         case err of
           Some e \<Rightarrow>
             (if e = errFutureTimestamp
              then (InconsistencyDetected # evs @ [GoSleepAcceptBlock b], Some e)
              else (InconsistencyDetected # evs, Some e))
         | None \<Rightarrow> (InconsistencyDetected # evs, None)))"


definition AcceptBlock ::
  "'db env \<Rightarrow> 'db ConsensusSet \<Rightarrow> Block \<Rightarrow> error option outcome \<times> 'db ConsensusSet" where
  "AcceptBlock E cs0 b =
     (let cs1 = emit [MuLock] cs0;
          (evs, err) = viewBody E cs1 (db cs1) b;
          cs2 = emit (DbView # evs) cs1
      in case err of
           Some e \<Rightarrow> (Returns (Some e), emit [MuUnlock] cs2)
         | None \<Rightarrow>
             (case addBlockToTree E cs2 b of
                (Panics p, cs3) \<Rightarrow> (Panics p, cs3)
              | (Returns (Inl e), cs3) \<Rightarrow> (Returns (Some e), emit [MuUnlock] cs3)
              | (Returns (Inr (reverted, applied)), cs3) \<Rightarrow>
                  (let ce = \<lparr>revertedBlocks = map (\<lambda>rn. ID E (Block rn)) reverted,
                             appliedBlocks = map (\<lambda>an. ID E (Block an)) applied\<rparr>;
                       cs4 = cs3\<lparr>changeLog := changeLog cs3 @ [ce]\<rparr>;
                       cs5 = emit [MuDemote] cs4;
                       cs6 = (if length applied > 0
                              then emit [ReadlockUpdateSubscribers ce] cs5
                              else cs5)
                   in if DEBUG E \<and> length applied = 0 \<and> length reverted \<noteq> 0
                      then (Panics (PanicString ''appliedBlocks and revertedBlocks are mismatched!''),
                            emit [MuDemotedUnlock] cs6)
                      else (Returns None, emit [GoBroadcast b, MuDemotedUnlock] cs6))))"

subsection \<open>The store and the tree operations, from the specification\<close>

text \<open>
  Modelled from the spec: the persistent block store and the current pointer, which this
  file only reaches through functions defined elsewhere in the package. The persisted
  layout is one bucket from block identifier to the serialised processed block and a
  well-known key that holds the identifier of the current tip; the children references
  of a record are kept beside it, and \<open>Corrupted\<close> is what the consistency check of
  the store detects.
\<close>

record store =
  StoreBlockMap :: "BlockID \<Rightarrow> bytes option"
  StoreChildren :: "BlockID \<Rightarrow> BlockID list"
  CurrentTip :: BlockID
  Corrupted :: bool

text \<open>The zero value of the Go struct.\<close>

definition zeroProcessedBlock :: processedBlock where
  "zeroProcessedBlock =
     \<lparr>Block = \<lparr>ParentID = 0, Timestamp = 0, Contents = 0\<rparr>, Height = 0, ChildTarget = 0\<rparr>"

text \<open>
  Modelled from the spec: a parent link is a lookup by identifier, not a reference; the
  record under an identifier, decoded, if there is one that decodes.
\<close>

definition storedRecord ::
  "(bytes \<Rightarrow> error + processedBlock) \<Rightarrow> store \<Rightarrow> BlockID \<Rightarrow> processedBlock option" where
  "storedRecord unmarshal tx i =
     (case StoreBlockMap tx i of
        None \<Rightarrow> None
      | Some bs \<Rightarrow> (case unmarshal bs of Inl err \<Rightarrow> None | Inr pb \<Rightarrow> Some pb))"

text \<open>
  Modelled from the spec: \<open>getBlockMap\<close>, the lookup of a processed block by its
  identifier in the block map bucket; a missing record and a record that does not decode
  are errors.
\<close>

definition specGetBlockMap ::
  "(bytes \<Rightarrow> error + processedBlock) \<Rightarrow> store \<Rightarrow> BlockID \<Rightarrow> processedBlock option \<times> error option" where
  "specGetBlockMap unmarshal tx i =
     (case StoreBlockMap tx i of
        None \<Rightarrow> (None, Some (errExternal ''no record under this identifier''))
      | Some bs \<Rightarrow>
          (case unmarshal bs of
             Inl err \<Rightarrow> (None, Some err)
           | Inr pb \<Rightarrow> (Some pb, None)))"

text \<open>
  Modelled from the spec: \<open>currentProcessedBlock\<close>, the processed block the current
  pointer identifies.
\<close>

definition specCurrentProcessedBlock ::
  "(bytes \<Rightarrow> error + processedBlock) \<Rightarrow> store \<Rightarrow> processedBlock" where
  "specCurrentProcessedBlock unmarshal tx =
     (case storedRecord unmarshal tx (CurrentTip tx) of
        None \<Rightarrow> zeroProcessedBlock
      | Some pb \<Rightarrow> pb)"

text \<open>
  Modelled from the spec: \<open>newChild\<close>, the tree insertion. It builds the child's record
  from the block and its parent's record (height is the parent's height plus one, the
  child target is computed from parent and block by a rule owned elsewhere), attaches the
  child to the parent and puts the record in the store; the current pointer is not
  touched. Header validation has found the parent's record before; for a nil parent the
  zero record stands in.
\<close>

definition specNewChild ::
  "(processedBlock \<Rightarrow> bytes) \<Rightarrow> (processedBlock \<Rightarrow> Block \<Rightarrow> Target) \<Rightarrow> (Block \<Rightarrow> BlockID) \<Rightarrow>
     store \<Rightarrow> processedBlock option \<Rightarrow> Block \<Rightarrow> processedBlock \<times> store" where
  "specNewChild marshal childTarget idOf tx pb b =
     (let parent = (case pb of None \<Rightarrow> zeroProcessedBlock | Some p \<Rightarrow> p);
          child = \<lparr>Block = b, Height = Height parent + 1, ChildTarget = childTarget parent b\<rparr>
      in (child,
          tx\<lparr>StoreChildren := (StoreChildren tx)
                 (ParentID b := StoreChildren tx (ParentID b) @ [idOf b]),
             StoreBlockMap := (StoreBlockMap tx)(idOf b \<mapsto> marshal child)\<rparr>))"

text \<open>
  Modelled from the spec: the walk from a node upward toward genesis, the node first.
  A node of height \<open>h\<close> has \<open>h\<close> ancestors, which bounds the walk.
\<close>

fun upwardPath ::
  "nat \<Rightarrow> (BlockID \<Rightarrow> processedBlock option) \<Rightarrow> processedBlock \<Rightarrow> processedBlock list" where
  "upwardPath 0 look n = [n]"
| "upwardPath (Suc k) look n =
     n # (case look (ParentID (Block n)) of
            None \<Rightarrow> []
          | Some p \<Rightarrow> upwardPath k look p)"

text \<open>
  Modelled from the spec: \<open>forkBlockchain\<close>, the fork resolver. Both the old tip and the
  new node are walked upward until the common ancestor, the first block on both paths:
  the blocks of the old path before it, tip first, are reverted, those of the new path
  before it, ancestor side first, are applied (the old tip and the new node included,
  as in the spec's scenarios A and C and its pure extension), and the current pointer
  is set to the new node. No record is deleted.
\<close>

definition specForkBlockchain ::
  "(bytes \<Rightarrow> error + processedBlock) \<Rightarrow> (Block \<Rightarrow> BlockID) \<Rightarrow>
     store \<Rightarrow> processedBlock \<Rightarrow> error + (processedBlock list \<times> processedBlock list \<times> store)" where
  "specForkBlockchain unmarshal idOf tx newNode =
     (let oldTip = specCurrentProcessedBlock unmarshal tx;
          oldPath = upwardPath (unat (Height oldTip)) (storedRecord unmarshal tx) oldTip;
          newPath = upwardPath (unat (Height newNode)) (storedRecord unmarshal tx) newNode;
          reverted = takeWhile (\<lambda>n. idOf (Block n) \<notin> set (map (\<lambda>m. idOf (Block m)) newPath)) oldPath;
          applied = rev (takeWhile (\<lambda>n. idOf (Block n) \<notin> set (map (\<lambda>m. idOf (Block m)) oldPath)) newPath)
      in Inr (reverted, applied, tx\<lparr>CurrentTip := idOf (Block newNode)\<rparr>))"

text \<open>
  Modelled from the spec: the package's functions on the store put in place of the
  store fields of an environment; the validator, the rule helper, the marshaler, the
  weight comparison and the build flag stay as they are given.
\<close>

definition specEnv ::
  "(processedBlock \<Rightarrow> bytes) \<Rightarrow> (processedBlock \<Rightarrow> Block \<Rightarrow> Target) \<Rightarrow> store env \<Rightarrow> store env" where
  "specEnv marshal childTarget E =
     E\<lparr>inconsistencyDetected := Corrupted,
       BucketBlockMap := (\<lambda>tx. Some (StoreBlockMap tx)),
       getBlockMap := specGetBlockMap (Unmarshal E),
       currentProcessedBlock := specCurrentProcessedBlock (Unmarshal E),
       newChild := specNewChild marshal childTarget (ID E),
       forkBlockchain := specForkBlockchain (Unmarshal E) (ID E)\<rparr>"

subsection \<open>Notions the properties are stated with\<close>

text \<open>The block map of the transaction has a record under this identifier.\<close>

definition blockInStore :: "'db env \<Rightarrow> 'db \<Rightarrow> BlockID \<Rightarrow> bool" where
  "blockInStore E tx i = (case BucketBlockMap E tx of None \<Rightarrow> False | Some blockMap \<Rightarrow> blockMap i \<noteq> None)"

text \<open>The updates sent to the subscribers, in the order they were sent.\<close>

fun notifications :: "event list \<Rightarrow> changeEntry list" where
  "notifications [] = []"
| "notifications (ReadlockUpdateSubscribers ce # es) = ce # notifications es"
| "notifications (e # es) = notifications es"

text \<open>
  One caller after another: each call starts from the state the one before left. A
  panic ends the run.
\<close>

fun AcceptBlocks ::
  "'db env \<Rightarrow> 'db ConsensusSet \<Rightarrow> Block list \<Rightarrow> error option outcome list \<times> 'db ConsensusSet" where
  "AcceptBlocks E cs [] = ([], cs)"
| "AcceptBlocks E cs (b # bs) =
     (case AcceptBlock E cs b of
        (Panics p, cs') \<Rightarrow> ([Panics p], cs')
      | (Returns r, cs') \<Rightarrow>
          (case AcceptBlocks E cs' bs of (rs, cs'') \<Rightarrow> (Returns r # rs, cs'')))"



subsection \<open>A small instance\<close>

text \<open>
  A store that holds the identifier of the current tip and the identifiers of the stored
  blocks; a block's identifier is its \<open>Contents\<close>, the heavier of two nodes is the one
  with the larger identifier, the validator's clock reads 1000 and the store is
  inconsistent when the tip is not among the stored blocks.
\<close>

type_synonym demoStore = "BlockID \<times> BlockID list"

definition demoNode :: "BlockID \<Rightarrow> processedBlock" where
  "demoNode i = \<lparr>Block = \<lparr>ParentID = 0, Timestamp = 500, Contents = i\<rparr>, Height = 0, ChildTarget = 0\<rparr>"

definition demoEnv :: "demoStore env" where
  "demoEnv =
     \<lparr>DEBUG = True,
      ID = Contents,
      FutureThreshold = 10800,
      inconsistencyDetected = (\<lambda>(tip, stored). tip \<notin> set stored),
      BucketBlockMap = (\<lambda>(tip, stored). Some (\<lambda>i. if i \<in> set stored then Some [i] else None)),
      Unmarshal = (\<lambda>bs. case bs of [i] \<Rightarrow> Inr (demoNode i) | _ \<Rightarrow> Inl (errExternal ''could not decode'')),
      minimumValidChildTimestamp = (\<lambda>blockMap parent. 100),
      ValidateBlock = (\<lambda>b minTimestamp target height.
         if Timestamp b < minTimestamp then Some (errExternal ''early timestamp'')
         else if 1000 + 10800 < Timestamp b then Some errFutureTimestamp
         else None),
      getBlockMap = (\<lambda>(tip, stored) i.
         if i \<in> set stored then (Some (demoNode i), None) else (None, Some (errExternal ''nil item''))),
      currentProcessedBlock = (\<lambda>(tip, stored). demoNode tip),
      newChild = (\<lambda>(tip, stored) pb b.
         (\<lparr>Block = b, Height = (case pb of Some p \<Rightarrow> Height p + 1 | None \<Rightarrow> 0), ChildTarget = 0\<rparr>,
          (tip, stored @ [Contents b]))),
      heavierThan = (\<lambda>n c. Contents (Block c) < Contents (Block n)),
      forkBlockchain = (\<lambda>(tip, stored) n.
         Inr (if ParentID (Block n) = tip then [] else [demoNode tip], [n], (Contents (Block n), stored)))\<rparr>"

definition demoCS :: "demoStore ConsensusSet" where
  "demoCS = \<lparr>db = (5, [1, 5]), dosBlocks = {7}, changeLog = [], events = []\<rparr>"

definition demoBlock :: "BlockID \<Rightarrow> BlockID \<Rightarrow> Timestamp \<Rightarrow> Block" where
  "demoBlock i parent ts = \<lparr>ParentID = parent, Timestamp = ts, Contents = i\<rparr>"

text \<open>
  The same on the store of the specification: records are serialised as identifier,
  parent and height, the heavier node is the higher one, the stored chain is
  block 1 (genesis) and its child 5, the current tip.
\<close>

definition demoMarshal :: "processedBlock \<Rightarrow> bytes" where
  "demoMarshal pb = [Contents (Block pb), ParentID (Block pb), unat (Height pb)]"

definition demoUnmarshal :: "bytes \<Rightarrow> error + processedBlock" where
  "demoUnmarshal bs =
     (case bs of
        [i, p, h] \<Rightarrow>
          Inr \<lparr>Block = \<lparr>ParentID = p, Timestamp = 500, Contents = i\<rparr>,
               Height = of_nat h, ChildTarget = 0\<rparr>
      | _ \<Rightarrow> Inl (errExternal ''could not decode''))"

definition demoCapabilities :: "store env" where
  "demoCapabilities =
     \<lparr>DEBUG = True,
      ID = Contents,
      FutureThreshold = 10800,
      inconsistencyDetected = (\<lambda>tx. False),
      BucketBlockMap = (\<lambda>tx. None),
      Unmarshal = demoUnmarshal,
      minimumValidChildTimestamp = (\<lambda>blockMap parent. 100),
      ValidateBlock = (\<lambda>b minTimestamp target height.
         if Timestamp b < minTimestamp then Some (errExternal ''early timestamp'')
         else if 1000 + 10800 < Timestamp b then Some errFutureTimestamp
         else None),
      getBlockMap = (\<lambda>tx i. (None, None)),
      currentProcessedBlock = (\<lambda>tx. zeroProcessedBlock),
      newChild = (\<lambda>tx pb b. (zeroProcessedBlock, tx)),
      heavierThan = (\<lambda>n c. Height c < Height n),
      forkBlockchain = (\<lambda>tx n. Inl (errExternal ''not used''))\<rparr>"

definition demoSpecEnv :: "store env" where
  "demoSpecEnv = specEnv demoMarshal (\<lambda>parent b. 0) demoCapabilities"

definition demoStoreCS :: "store ConsensusSet" where
  "demoStoreCS =
     \<lparr>db = \<lparr>StoreBlockMap = [1 \<mapsto> [1, 0, 0], 5 \<mapsto> [5, 1, 1]],
             StoreChildren = (\<lambda>i. [])(1 := [5]),
             CurrentTip = 5,
             Corrupted = False\<rparr>,
      dosBlocks = {7}, changeLog = [], events = []\<rparr>"



section \<open>Properties of the version check\<close>

lemma IsVersion_loop_iff:
  "IsVersion_loop ns \<longleftrightarrow> (\<forall>n\<in>set ns. \<exists>v. Atoi n = Inr v)"
  by (induction ns) (auto split: sum.splits)

text \<open>
  C10. \<open>IsVersion\<close> is true exactly when \<^verbatim>\<open>strconv.Atoi\<close> parses every piece that
  \<^verbatim>\<open>strings.Split\<close> cuts at the dots; it accepts signed pieces, as in \<^verbatim>\<open>"-1.2"\<close>, and it
  rejects the empty string, whose only piece is empty and does not parse.
\<close>

theorem IsVersion_components:
  "(IsVersion str \<longleftrightarrow> (\<forall>n\<in>set (Split str CHR ''.''). \<exists>v. Atoi n = Inr v))
   \<and> IsVersion ''-1.2''
   \<and> \<not> IsVersion ''''
   \<and> Split '''' CHR ''.'' = ['''']
   \<and> Atoi '''' = Inl ErrSyntax"
  by (simp add: IsVersion_def IsVersion_loop_iff Atoi_def isDigit_def intSize_def)

theorem IsVersion_components_witness:
  "IsVersion ''0.4.0''
   \<and> Split ''0.4.0'' CHR ''.'' = [''0'', ''4'', ''0'']
   \<and> Atoi ''0'' = Inr 0 \<and> Atoi ''4'' = Inr 4"
  using IsVersion_components [of "''0.4.0''"]
  by (simp add: Atoi_def isDigit_def intSize_def)

section \<open>Properties of block acceptance\<close>

lemmas demo_defs = demoEnv_def demoCS_def demoBlock_def demoNode_def
  AcceptBlock_def addBlockToTree_def viewBody_def validateHeader_def emit_def Let_def

lemma emit_fields [simp]:
  "db (emit es cs) = db cs"
  "dosBlocks (emit es cs) = dosBlocks cs"
  "changeLog (emit es cs) = changeLog cs"
  "events (emit es cs) = events cs @ es"
  by (simp_all add: emit_def)

lemma emit_emit [simp]: "emit es (emit ds cs) = emit (ds @ es) cs"
  by (simp add: emit_def)

lemma validateHeader_dosBlocks:
  "dosBlocks cs' = dosBlocks cs \<Longrightarrow> validateHeader E cs' tx b = validateHeader E cs tx b"
  by (simp add: validateHeader_def)

lemma viewBody_dosBlocks:
  "dosBlocks cs' = dosBlocks cs \<Longrightarrow> viewBody E cs' tx b = viewBody E cs tx b"
  by (simp add: viewBody_def validateHeader_dosBlocks [of cs' cs])

lemma AcceptBlock_view_error:
  assumes "viewBody E cs (db cs) b = (evs, Some e)"
  shows "AcceptBlock E cs b = (Returns (Some e), emit (MuLock # DbView # evs @ [MuUnlock]) cs)"
proof -
  have "viewBody E (emit [MuLock] cs) (db cs) b = (evs, Some e)"
    using assms by (simp add: viewBody_dosBlocks [of "emit [MuLock] cs" cs])
  then show ?thesis
    by (simp add: AcceptBlock_def Let_def)
qed

lemma AcceptBlock_view_ok:
  assumes "viewBody E cs (db cs) b = (evs, None)"
  shows "AcceptBlock E cs b =
     (case addBlockToTree E (emit (MuLock # DbView # evs) cs) b of
                (Panics p, cs3) \<Rightarrow> (Panics p, cs3)
              | (Returns (Inl e), cs3) \<Rightarrow> (Returns (Some e), emit [MuUnlock] cs3)
              | (Returns (Inr (reverted, applied)), cs3) \<Rightarrow>
                  (let ce = \<lparr>revertedBlocks = map (\<lambda>rn. ID E (Block rn)) reverted,
                             appliedBlocks = map (\<lambda>an. ID E (Block an)) applied\<rparr>;
                       cs4 = cs3\<lparr>changeLog := changeLog cs3 @ [ce]\<rparr>;
                       cs5 = emit [MuDemote] cs4;
                       cs6 = (if length applied > 0
                              then emit [ReadlockUpdateSubscribers ce] cs5
                              else cs5)
                   in if DEBUG E \<and> length applied = 0 \<and> length reverted \<noteq> 0
                      then (Panics (PanicString ''appliedBlocks and revertedBlocks are mismatched!''),
                            emit [MuDemotedUnlock] cs6)
                      else (Returns None, emit [GoBroadcast b, MuDemotedUnlock] cs6)))"
proof -
  have "viewBody E (emit [MuLock] cs) (db cs) b = (evs, None)"
    using assms by (simp add: viewBody_dosBlocks [of "emit [MuLock] cs" cs])
  then show ?thesis
    by (simp add: AcceptBlock_def Let_def)
qed

lemma viewBody_cases:
  "viewBody E cs tx b =
     (if inconsistencyDetected E tx
      then ([InconsistencyDetected], Some (errorsNew ''inconsistent database''))
      else (InconsistencyDetected # fst (validateHeader E cs tx b)
              @ (if snd (validateHeader E cs tx b) = Some errFutureTimestamp
                 then [GoSleepAcceptBlock b] else []),
            snd (validateHeader E cs tx b)))"
  by (auto simp: viewBody_def split: prod.splits option.splits)


lemma validateHeader_trace_prefix:
  "\<exists>n pbytes. fst (validateHeader E cs tx b) =
     take n [DosBlocksLookup (ID E b), TxBucketBlockMap, BlockMapGet (ID E b),
             BlockMapGet (ParentID b), MarshalerUnmarshal pbytes,
             MinimumValidChildTimestamp, ValidateBlockCall]"
proof (cases "ID E b \<in> dosBlocks cs")
  case True
  then have "fst (validateHeader E cs tx b) = take 1 [DosBlocksLookup (ID E b), TxBucketBlockMap, BlockMapGet (ID E b),
             BlockMapGet (ParentID b), MarshalerUnmarshal [],
             MinimumValidChildTimestamp, ValidateBlockCall]"
    by (simp add: validateHeader_def Let_def)
  then show ?thesis by blast
next
  case nodos: False
  show ?thesis
  proof (cases "BucketBlockMap E tx")
    case None
    with nodos have "fst (validateHeader E cs tx b) = take 2 [DosBlocksLookup (ID E b), TxBucketBlockMap, BlockMapGet (ID E b),
             BlockMapGet (ParentID b), MarshalerUnmarshal [],
             MinimumValidChildTimestamp, ValidateBlockCall]"
      by (simp add: validateHeader_def Let_def)
    then show ?thesis by blast
  next
    case (Some bm)
    show ?thesis
    proof (cases "bm (ID E b)")
      case known: (Some bs)
      with nodos Some have "fst (validateHeader E cs tx b) = take 3 [DosBlocksLookup (ID E b), TxBucketBlockMap, BlockMapGet (ID E b),
             BlockMapGet (ParentID b), MarshalerUnmarshal [],
             MinimumValidChildTimestamp, ValidateBlockCall]"
        by (simp add: validateHeader_def Let_def)
      then show ?thesis by blast
    next
      case unknown: None
      show ?thesis
      proof (cases "bm (ParentID b)")
        case None
        with nodos Some unknown have "fst (validateHeader E cs tx b) = take 4 [DosBlocksLookup (ID E b), TxBucketBlockMap, BlockMapGet (ID E b),
             BlockMapGet (ParentID b), MarshalerUnmarshal [],
             MinimumValidChildTimestamp, ValidateBlockCall]"
          by (simp add: validateHeader_def Let_def)
        then show ?thesis by blast
      next
        case parent: (Some pbytes)
        show ?thesis
        proof (cases "Unmarshal E pbytes")
          case (Inl e)
          with nodos Some unknown parent have "fst (validateHeader E cs tx b) = take 5 [DosBlocksLookup (ID E b), TxBucketBlockMap, BlockMapGet (ID E b),
             BlockMapGet (ParentID b), MarshalerUnmarshal pbytes,
             MinimumValidChildTimestamp, ValidateBlockCall]"
            by (simp add: validateHeader_def Let_def)
          then show ?thesis by blast
        next
          case (Inr p)
          with nodos Some unknown parent have "fst (validateHeader E cs tx b) = take 7 [DosBlocksLookup (ID E b), TxBucketBlockMap, BlockMapGet (ID E b),
             BlockMapGet (ParentID b), MarshalerUnmarshal pbytes,
             MinimumValidChildTimestamp, ValidateBlockCall]"
            by (simp add: validateHeader_def Let_def)
          then show ?thesis by blast
        qed
      qed
    qed
  qed
qed

text \<open>
  C2. Header validation performs its checks in one fixed order: the lookup in the DoS
  set (\<open>errDoSBlock\<close>), the block map bucket (\<open>errNoBlockMap\<close>), the block's own
  identifier in the block map (\<open>ErrBlockKnown\<close>), the parent's (\<open>errOrphan\<close>), the
  decoding of the parent's record, the minimum timestamp and last the block validator,
  whose result is returned. What was performed is always an initial part of that list,
  and a check that fails ends it: each result below needs every earlier check to have
  passed, and the trace stops at the check that produced it.
\<close>

theorem validateHeader_order:
  "(\<exists>n pbytes. fst (validateHeader E cs tx b) =
       take n [DosBlocksLookup (ID E b), TxBucketBlockMap, BlockMapGet (ID E b),
               BlockMapGet (ParentID b), MarshalerUnmarshal pbytes,
               MinimumValidChildTimestamp, ValidateBlockCall])
   \<and> (ID E b \<in> dosBlocks cs \<longrightarrow>
        validateHeader E cs tx b = ([DosBlocksLookup (ID E b)], Some errDoSBlock))
   \<and> (ID E b \<notin> dosBlocks cs \<longrightarrow> BucketBlockMap E tx = None \<longrightarrow>
        validateHeader E cs tx b =
          ([DosBlocksLookup (ID E b), TxBucketBlockMap], Some errNoBlockMap))
   \<and> (ID E b \<notin> dosBlocks cs \<longrightarrow> BucketBlockMap E tx = Some blockMap \<longrightarrow>
        blockMap (ID E b) \<noteq> None \<longrightarrow>
        validateHeader E cs tx b =
          ([DosBlocksLookup (ID E b), TxBucketBlockMap, BlockMapGet (ID E b)],
           Some ErrBlockKnown))
   \<and> (ID E b \<notin> dosBlocks cs \<longrightarrow> BucketBlockMap E tx = Some blockMap \<longrightarrow>
        blockMap (ID E b) = None \<longrightarrow> blockMap (ParentID b) = None \<longrightarrow>
        validateHeader E cs tx b =
          ([DosBlocksLookup (ID E b), TxBucketBlockMap, BlockMapGet (ID E b),
            BlockMapGet (ParentID b)], Some errOrphan))
   \<and> (ID E b \<notin> dosBlocks cs \<longrightarrow> BucketBlockMap E tx = Some blockMap \<longrightarrow>
        blockMap (ID E b) = None \<longrightarrow> blockMap (ParentID b) = Some parentBytes \<longrightarrow>
        Unmarshal E parentBytes = Inl err \<longrightarrow>
        validateHeader E cs tx b =
          ([DosBlocksLookup (ID E b), TxBucketBlockMap, BlockMapGet (ID E b),
            BlockMapGet (ParentID b), MarshalerUnmarshal parentBytes], Some err))
   \<and> (ID E b \<notin> dosBlocks cs \<longrightarrow> BucketBlockMap E tx = Some blockMap \<longrightarrow>
        blockMap (ID E b) = None \<longrightarrow> blockMap (ParentID b) = Some parentBytes \<longrightarrow>
        Unmarshal E parentBytes = Inr parent \<longrightarrow>
        validateHeader E cs tx b =
          ([DosBlocksLookup (ID E b), TxBucketBlockMap, BlockMapGet (ID E b),
            BlockMapGet (ParentID b), MarshalerUnmarshal parentBytes,
            MinimumValidChildTimestamp, ValidateBlockCall],
           ValidateBlock E b (minimumValidChildTimestamp E blockMap parent)
             (ChildTarget parent) (Height parent + 1)))"
  using validateHeader_trace_prefix [of E cs tx b]
  by (simp add: validateHeader_def Let_def)

theorem validateHeader_order_witness:
  "ID demoEnv (demoBlock 6 5 600) \<notin> dosBlocks demoCS
   \<and> BucketBlockMap demoEnv (db demoCS) = Some (\<lambda>i. if i \<in> set [1, 5] then Some [i] else None)
   \<and> Unmarshal demoEnv [5] = Inr (demoNode 5)
   \<and> validateHeader demoEnv demoCS (db demoCS) (demoBlock 6 5 600) =
       ([DosBlocksLookup 6, TxBucketBlockMap, BlockMapGet 6, BlockMapGet 5,
         MarshalerUnmarshal [5], MinimumValidChildTimestamp, ValidateBlockCall], None)"
proof -
  let ?bm = "\<lambda>i::nat. if i \<in> set [1, 5] then Some [i] else None"
  let ?b = "demoBlock 6 5 600"
  have h1: "ID demoEnv ?b \<notin> dosBlocks demoCS"
    by (simp add: demoEnv_def demoCS_def demoBlock_def)
  have h2: "BucketBlockMap demoEnv (db demoCS) = Some ?bm"
    by (simp add: demoEnv_def demoCS_def)
  have h3: "?bm (ID demoEnv ?b) = None"
    by (simp add: demoEnv_def demoBlock_def)
  have h4: "?bm (ParentID ?b) = Some [5]"
    by (simp add: demoBlock_def)
  have h5: "Unmarshal demoEnv [5] = Inr (demoNode 5)"
    by (simp add: demoEnv_def)
  have "validateHeader demoEnv demoCS (db demoCS) ?b =
          ([DosBlocksLookup (ID demoEnv ?b), TxBucketBlockMap, BlockMapGet (ID demoEnv ?b),
            BlockMapGet (ParentID ?b), MarshalerUnmarshal [5],
            MinimumValidChildTimestamp, ValidateBlockCall],
           ValidateBlock demoEnv ?b (minimumValidChildTimestamp demoEnv ?bm (demoNode 5))
             (ChildTarget (demoNode 5)) (Height (demoNode 5) + 1))"
    using validateHeader_order [where E = demoEnv and b = ?b and cs = demoCS
      and tx = "db demoCS" and blockMap = ?bm and parentBytes = "[5]"
      and parent = "demoNode 5"] h1 h2 h3 h4 h5
    by blast
  then have "validateHeader demoEnv demoCS (db demoCS) ?b =
       ([DosBlocksLookup 6, TxBucketBlockMap, BlockMapGet 6, BlockMapGet 5,
         MarshalerUnmarshal [5], MinimumValidChildTimestamp, ValidateBlockCall], None)"
    by (simp add: demoEnv_def demoBlock_def demoNode_def)
  with h1 h2 h5 show ?thesis by blast
qed


lemma notifications_append:
  "notifications (xs @ ys) = notifications xs @ notifications ys"
  by (induction xs rule: notifications.induct) simp_all

lemma notifications_validateHeader:
  "notifications (fst (validateHeader E cs tx b)) = []"
  by (simp add: validateHeader_def Let_def split: option.splits sum.splits)

lemma notifications_viewBody:
  "notifications (fst (viewBody E cs tx b)) = []"
  by (simp add: viewBody_cases notifications_append notifications_validateHeader)

lemma viewBody_error_cases:
  assumes "viewBody E cs tx b = (evs, Some e)"
  shows "inconsistencyDetected E tx \<and> e = errorsNew ''inconsistent database''
           \<and> evs = [InconsistencyDetected]
         \<or> \<not> inconsistencyDetected E tx \<and> snd (validateHeader E cs tx b) = Some e"
  using assms by (auto simp: viewBody_cases split: if_splits)

lemma viewBody_ok_cases:
  assumes "viewBody E cs tx b = (evs, None)"
  shows "\<not> inconsistencyDetected E tx \<and> snd (validateHeader E cs tx b) = None
         \<and> evs = InconsistencyDetected # fst (validateHeader E cs tx b)"
  using assms by (auto simp: viewBody_cases split: if_splits)

text \<open>The outcomes of addBlockToTree, one lemma for each way through it.\<close>

lemma addBlockToTree_nonExtending:
  assumes "getBlockMap E (db cs) (ParentID b) = (pb, err)"
    and "DEBUG E \<longrightarrow> err = None"
    and "newChild E (db cs) pb b = (newNode, tx1)"
    and "\<not> heavierThan E newNode (currentProcessedBlock E (db cs))"
  shows "addBlockToTree E cs b =
           (Returns (Inl ErrNonExtendingBlock), emit [DbUpdate, TxCommit] (cs\<lparr>db := tx1\<rparr>))"
  using assms by (auto simp: addBlockToTree_def Let_def)

lemma addBlockToTree_shape:
  "(\<exists>p. addBlockToTree E cs b = (Panics p, emit [DbUpdate, TxRollback] cs))
   \<or> (\<exists>e. addBlockToTree E cs b = (Returns (Inl e), emit [DbUpdate, TxRollback] cs))
   \<or> (\<exists>tx1. addBlockToTree E cs b =
         (Returns (Inl ErrNonExtendingBlock), emit [DbUpdate, TxCommit] (cs\<lparr>db := tx1\<rparr>)))
   \<or> (\<exists>reverted applied tx2.
         forkBlockchain E
           (snd (newChild E (db cs) (fst (getBlockMap E (db cs) (ParentID b))) b))
           (fst (newChild E (db cs) (fst (getBlockMap E (db cs) (ParentID b))) b))
           = Inr (reverted, applied, tx2)
         \<and> addBlockToTree E cs b =
             (Returns (Inr (reverted, applied)), emit [DbUpdate, TxCommit] (cs\<lparr>db := tx2\<rparr>)))"
  by (auto simp: addBlockToTree_def Let_def split: prod.splits option.splits sum.splits)


lemma AcceptBlock_shape:
  assumes vb: "viewBody E cs (db cs) b = (evs, None)"
  shows "(\<exists>p. AcceptBlock E cs b =
            (Panics p, emit (MuLock # DbView # evs @ [DbUpdate, TxRollback]) cs))
   \<or> (\<exists>e. AcceptBlock E cs b =
            (Returns (Some e), emit (MuLock # DbView # evs @ [DbUpdate, TxRollback, MuUnlock]) cs))
   \<or> (\<exists>tx1. AcceptBlock E cs b =
            (Returns (Some ErrNonExtendingBlock),
             emit (MuLock # DbView # evs @ [DbUpdate, TxCommit, MuUnlock]) (cs\<lparr>db := tx1\<rparr>)))
   \<or> (\<exists>reverted applied tx2.
         forkBlockchain E
           (snd (newChild E (db cs) (fst (getBlockMap E (db cs) (ParentID b))) b))
           (fst (newChild E (db cs) (fst (getBlockMap E (db cs) (ParentID b))) b))
           = Inr (reverted, applied, tx2)
         \<and> AcceptBlock E cs b =
             (if DEBUG E \<and> applied = [] \<and> reverted \<noteq> []
              then (Panics (PanicString ''appliedBlocks and revertedBlocks are mismatched!''),
                    emit (MuLock # DbView # evs @ [DbUpdate, TxCommit, MuDemote, MuDemotedUnlock])
                      (cs\<lparr>db := tx2,
                          changeLog := changeLog cs @
                            [\<lparr>revertedBlocks = map (\<lambda>rn. ID E (Block rn)) reverted,
                              appliedBlocks = []\<rparr>]\<rparr>))
              else (Returns None,
                    emit (MuLock # DbView # evs @ [DbUpdate, TxCommit, MuDemote]
                          @ (if applied = [] then []
                             else [ReadlockUpdateSubscribers
                                    \<lparr>revertedBlocks = map (\<lambda>rn. ID E (Block rn)) reverted,
                                     appliedBlocks = map (\<lambda>an. ID E (Block an)) applied\<rparr>])
                          @ [GoBroadcast b, MuDemotedUnlock])
                      (cs\<lparr>db := tx2,
                          changeLog := changeLog cs @
                            [\<lparr>revertedBlocks = map (\<lambda>rn. ID E (Block rn)) reverted,
                              appliedBlocks = map (\<lambda>an. ID E (Block an)) applied\<rparr>]\<rparr>))))"
  using addBlockToTree_shape [of E "emit (MuLock # DbView # evs) cs" b]
  by (elim disjE exE conjE) (auto simp add: AcceptBlock_view_ok [OF vb] emit_def Let_def)


lemma viewBody_dosBlock:
  assumes "ID E b \<in> dosBlocks cs" and "\<not> inconsistencyDetected E tx"
  shows "viewBody E cs tx b =
           ([InconsistencyDetected, DosBlocksLookup (ID E b)], Some errDoSBlock)"
  using assms by (simp add: viewBody_cases validateHeader_def)

text \<open>
  C7, as amended. A block whose identifier is in the DoS set, offered to a store that
  passes the consistency check, is refused with \<open>errDoSBlock\<close>; the read-only View
  transaction is opened (the consistency check and header validation run inside it), no
  read-write transaction is opened, and the store, the DoS set and the change log stay
  as they were.
\<close>

theorem AcceptBlock_dosBlock:
  assumes "ID E b \<in> dosBlocks cs" and "\<not> inconsistencyDetected E (db cs)"
  shows "AcceptBlock E cs b =
           (Returns (Some errDoSBlock),
            emit [MuLock, DbView, InconsistencyDetected, DosBlocksLookup (ID E b), MuUnlock] cs)"
  using AcceptBlock_view_error [OF viewBody_dosBlock [OF assms]] by simp

theorem AcceptBlock_dosBlock_witness:
  "ID demoEnv (demoBlock 7 5 600) \<in> dosBlocks demoCS
   \<and> \<not> inconsistencyDetected demoEnv (db demoCS)
   \<and> AcceptBlock demoEnv demoCS (demoBlock 7 5 600) =
       (Returns (Some errDoSBlock),
        \<lparr>db = (5, [1, 5]), dosBlocks = {7}, changeLog = [],
         events = [MuLock, DbView, InconsistencyDetected, DosBlocksLookup 7, MuUnlock]\<rparr>)"
proof -
  have h1: "ID demoEnv (demoBlock 7 5 600) \<in> dosBlocks demoCS"
    by (simp add: demoEnv_def demoCS_def demoBlock_def)
  have h2: "\<not> inconsistencyDetected demoEnv (db demoCS)"
    by (simp add: demoEnv_def demoCS_def)
  from AcceptBlock_dosBlock [OF h1 h2]
  have "AcceptBlock demoEnv demoCS (demoBlock 7 5 600) =
       (Returns (Some errDoSBlock),
        \<lparr>db = (5, [1, 5]), dosBlocks = {7}, changeLog = [],
         events = [MuLock, DbView, InconsistencyDetected, DosBlocksLookup 7, MuUnlock]\<rparr>)"
    by (simp add: demoEnv_def demoCS_def demoBlock_def emit_def)
  with h1 h2 show ?thesis by blast
qed

text \<open>
  C7 as stated fails: the View transaction is opened before the DoS set is looked at,
  and on an inconsistent store the block in the DoS set gets the inconsistency error.
\<close>

theorem AcceptBlock_dosBlock_counterexample:
  "\<not> (ID demoEnv (demoBlock 7 5 600) \<in> dosBlocks demoCS \<longrightarrow>
        fst (AcceptBlock demoEnv demoCS (demoBlock 7 5 600)) = Returns (Some errDoSBlock)
        \<and> DbView \<notin> set (events (snd (AcceptBlock demoEnv demoCS (demoBlock 7 5 600)))))
   \<and> \<not> (ID demoEnv (demoBlock 7 5 600) \<in> dosBlocks (demoCS\<lparr>db := (2, [1, 5])\<rparr>) \<longrightarrow>
        fst (AcceptBlock demoEnv (demoCS\<lparr>db := (2, [1, 5])\<rparr>) (demoBlock 7 5 600))
          = Returns (Some errDoSBlock))"
  by (simp add: demo_defs)


lemma validateHeader_parent_absent:
  assumes "\<not> blockInStore E tx (ParentID b)"
  shows "\<exists>e. snd (validateHeader E cs tx b) = Some e"
  using assms
  by (auto simp: validateHeader_def blockInStore_def Let_def split: option.splits)

lemma validateHeader_orphan:
  assumes "ID E b \<notin> dosBlocks cs" and "BucketBlockMap E tx \<noteq> None"
    and "\<not> blockInStore E tx (ID E b)" and "\<not> blockInStore E tx (ParentID b)"
  shows "validateHeader E cs tx b =
           ([DosBlocksLookup (ID E b), TxBucketBlockMap, BlockMapGet (ID E b),
             BlockMapGet (ParentID b)], Some errOrphan)"
  using assms
  by (auto simp: validateHeader_def blockInStore_def Let_def split: option.splits)

lemma DbUpdate_notin_validateHeader:
  "DbUpdate \<notin> set (fst (validateHeader E cs tx b))"
  by (simp add: validateHeader_def Let_def split: option.splits sum.splits)

lemma DbUpdate_notin_viewBody:
  "DbUpdate \<notin> set (fst (viewBody E cs tx b))"
  by (simp add: viewBody_cases DbUpdate_notin_validateHeader)

text \<open>
  C6, as amended. A block whose parent has no record in the block map is always refused
  with an error and without any mutation: no read-write transaction is opened, and the
  store, the DoS set and the change log are unchanged. The error is \<open>errOrphan\<close> when
  the earlier checks pass: the store is consistent, the block is not in the DoS set,
  the block map bucket exists and the block itself is not stored yet.
\<close>

theorem AcceptBlock_orphan:
  assumes "\<not> blockInStore E (db cs) (ParentID b)"
  shows "\<exists>e evs. AcceptBlock E cs b = (Returns (Some e), emit evs cs)
           \<and> DbUpdate \<notin> set evs
           \<and> (\<not> inconsistencyDetected E (db cs) \<and> ID E b \<notin> dosBlocks cs
                \<and> BucketBlockMap E (db cs) \<noteq> None \<and> \<not> blockInStore E (db cs) (ID E b)
               \<longrightarrow> e = errOrphan
                   \<and> evs = [MuLock, DbView, InconsistencyDetected, DosBlocksLookup (ID E b),
                            TxBucketBlockMap, BlockMapGet (ID E b), BlockMapGet (ParentID b),
                            MuUnlock])"
proof -
  have "\<exists>e. snd (viewBody E cs (db cs) b) = Some e"
    using validateHeader_parent_absent [OF assms, of cs]
    by (simp add: viewBody_cases)
  then obtain e where e: "snd (viewBody E cs (db cs) b) = Some e" ..
  define evs where "evs = fst (viewBody E cs (db cs) b)"
  have vb: "viewBody E cs (db cs) b = (evs, Some e)"
    using e by (simp add: evs_def prod_eq_iff)
  have acc: "AcceptBlock E cs b = (Returns (Some e), emit (MuLock # DbView # evs @ [MuUnlock]) cs)"
    by (rule AcceptBlock_view_error [OF vb])
  have noupd: "DbUpdate \<notin> set (MuLock # DbView # evs @ [MuUnlock])"
    using DbUpdate_notin_viewBody [of E cs "db cs" b] by (simp add: evs_def)
  have orphan: "e = errOrphan
      \<and> MuLock # DbView # evs @ [MuUnlock] =
          [MuLock, DbView, InconsistencyDetected, DosBlocksLookup (ID E b),
           TxBucketBlockMap, BlockMapGet (ID E b), BlockMapGet (ParentID b), MuUnlock]"
    if "\<not> inconsistencyDetected E (db cs)" "ID E b \<notin> dosBlocks cs"
       "BucketBlockMap E (db cs) \<noteq> None" "\<not> blockInStore E (db cs) (ID E b)"
    using vb that validateHeader_orphan [OF that(2) that(3) that(4) assms]
    by (simp add: viewBody_cases)
  from acc noupd orphan show ?thesis by blast
qed

theorem AcceptBlock_orphan_witness:
  "\<not> blockInStore demoEnv (db demoCS) (ParentID (demoBlock 8 9 600))
   \<and> \<not> inconsistencyDetected demoEnv (db demoCS)
   \<and> ID demoEnv (demoBlock 8 9 600) \<notin> dosBlocks demoCS
   \<and> BucketBlockMap demoEnv (db demoCS) \<noteq> None
   \<and> \<not> blockInStore demoEnv (db demoCS) (ID demoEnv (demoBlock 8 9 600))
   \<and> AcceptBlock demoEnv demoCS (demoBlock 8 9 600) =
       (Returns (Some errOrphan),
        \<lparr>db = (5, [1, 5]), dosBlocks = {7}, changeLog = [],
         events = [MuLock, DbView, InconsistencyDetected, DosBlocksLookup 8,
                   TxBucketBlockMap, BlockMapGet 8, BlockMapGet 9, MuUnlock]\<rparr>)"
proof -
  let ?b = "demoBlock 8 9 600"
  have h0: "\<not> blockInStore demoEnv (db demoCS) (ParentID ?b)"
    by (simp add: blockInStore_def demoEnv_def demoCS_def demoBlock_def)
  have h1: "\<not> inconsistencyDetected demoEnv (db demoCS)"
    by (simp add: demoEnv_def demoCS_def)
  have h2: "ID demoEnv ?b \<notin> dosBlocks demoCS"
    by (simp add: demoEnv_def demoCS_def demoBlock_def)
  have h3: "BucketBlockMap demoEnv (db demoCS) \<noteq> None"
    by (simp add: demoEnv_def demoCS_def)
  have h4: "\<not> blockInStore demoEnv (db demoCS) (ID demoEnv ?b)"
    by (simp add: blockInStore_def demoEnv_def demoCS_def demoBlock_def)
  from AcceptBlock_orphan [OF h0] h1 h2 h3 h4
  have "AcceptBlock demoEnv demoCS ?b =
          (Returns (Some errOrphan),
           emit [MuLock, DbView, InconsistencyDetected, DosBlocksLookup (ID demoEnv ?b),
                 TxBucketBlockMap, BlockMapGet (ID demoEnv ?b), BlockMapGet (ParentID ?b),
                 MuUnlock] demoCS)"
    by blast
  then have "AcceptBlock demoEnv demoCS ?b =
       (Returns (Some errOrphan),
        \<lparr>db = (5, [1, 5]), dosBlocks = {7}, changeLog = [],
         events = [MuLock, DbView, InconsistencyDetected, DosBlocksLookup 8,
                   TxBucketBlockMap, BlockMapGet 8, BlockMapGet 9, MuUnlock]\<rparr>)"
    by (simp add: demoEnv_def demoCS_def demoBlock_def emit_def)
  with h0 h1 h2 h3 h4 show ?thesis by blast
qed

text \<open>
  C6 as stated fails: a block in the DoS set whose parent is unknown is refused with
  \<open>errDoSBlock\<close>, and a stored block whose parent is not stored (as the first block of
  a chain is) with \<open>ErrBlockKnown\<close>, not with \<open>errOrphan\<close>.
\<close>

theorem AcceptBlock_orphan_counterexample:
  "\<not> (\<not> blockInStore demoEnv (db demoCS) (ParentID (demoBlock 7 9 600)) \<longrightarrow>
        fst (AcceptBlock demoEnv demoCS (demoBlock 7 9 600)) = Returns (Some errOrphan))
   \<and> \<not> (\<not> blockInStore demoEnv (db demoCS) (ParentID (demoBlock 1 0 600)) \<longrightarrow>
        fst (AcceptBlock demoEnv demoCS (demoBlock 1 0 600)) = Returns (Some errOrphan))
   \<and> fst (AcceptBlock demoEnv demoCS (demoBlock 7 9 600)) = Returns (Some errDoSBlock)
   \<and> fst (AcceptBlock demoEnv demoCS (demoBlock 1 0 600)) = Returns (Some ErrBlockKnown)"
  by (simp add: demo_defs blockInStore_def)


lemma AcceptBlock_inconsistent_one:
  assumes "inconsistencyDetected E (db cs)"
  shows "AcceptBlock E cs b =
           (Returns (Some (errorsNew ''inconsistent database'')),
            emit [MuLock, DbView, InconsistencyDetected, MuUnlock] cs)"
proof -
  have "viewBody E cs (db cs) b =
          ([InconsistencyDetected], Some (errorsNew ''inconsistent database''))"
    using assms by (simp add: viewBody_cases)
  from AcceptBlock_view_error [OF this] show ?thesis by simp
qed

lemma AcceptBlocks_inconsistent:
  assumes "inconsistencyDetected E (db cs)"
  shows "AcceptBlocks E cs bs =
           (replicate (length bs) (Returns (Some (errorsNew ''inconsistent database''))),
            emit (concat (replicate (length bs) [MuLock, DbView, InconsistencyDetected, MuUnlock])) cs)"
  using assms
proof (induction bs arbitrary: cs)
  case Nil
  then show ?case by (simp add: emit_def)
next
  case (Cons b bs)
  let ?cs' = "emit [MuLock, DbView, InconsistencyDetected, MuUnlock] cs"
  have "inconsistencyDetected E (db ?cs')" using Cons.prems by simp
  from Cons.IH [OF this] show ?case
    by (simp add: AcceptBlock_inconsistent_one [OF Cons.prems])
qed

text \<open>
  C8. The consistency check runs first, inside the View transaction and before anything
  of the candidate block is read: on a store it finds inconsistent, acceptance returns
  the error \<open>inconsistent database\<close>, whatever the block, releases the lock and changes
  nothing. Since the store is left as it was, every later acceptance on this instance
  ends the same way: no further block is processed.
\<close>

theorem AcceptBlock_inconsistent:
  assumes "inconsistencyDetected E (db cs)"
  shows "AcceptBlock E cs b =
           (Returns (Some (errorsNew ''inconsistent database'')),
            emit [MuLock, DbView, InconsistencyDetected, MuUnlock] cs)
         \<and> fst (AcceptBlocks E cs bs) =
             replicate (length bs) (Returns (Some (errorsNew ''inconsistent database'')))
         \<and> db (snd (AcceptBlocks E cs bs)) = db cs
         \<and> dosBlocks (snd (AcceptBlocks E cs bs)) = dosBlocks cs
         \<and> changeLog (snd (AcceptBlocks E cs bs)) = changeLog cs
         \<and> events (snd (AcceptBlocks E cs bs)) =
             events cs @ concat (replicate (length bs) [MuLock, DbView, InconsistencyDetected, MuUnlock])"
  by (simp add: AcceptBlock_inconsistent_one [OF assms] AcceptBlocks_inconsistent [OF assms])

theorem AcceptBlock_inconsistent_witness:
  "inconsistencyDetected demoEnv (db (demoCS\<lparr>db := (2, [1, 5])\<rparr>))
   \<and> AcceptBlock demoEnv (demoCS\<lparr>db := (2, [1, 5])\<rparr>) (demoBlock 6 5 600) =
       (Returns (Some (errorsNew ''inconsistent database'')),
        \<lparr>db = (2, [1, 5]), dosBlocks = {7}, changeLog = [],
         events = [MuLock, DbView, InconsistencyDetected, MuUnlock]\<rparr>)
   \<and> fst (AcceptBlocks demoEnv (demoCS\<lparr>db := (2, [1, 5])\<rparr>)
            [demoBlock 6 5 600, demoBlock 7 5 600]) =
       [Returns (Some (errorsNew ''inconsistent database'')),
        Returns (Some (errorsNew ''inconsistent database''))]"
proof -
  let ?cs = "demoCS\<lparr>db := (2, [1, 5])\<rparr>"
  have h: "inconsistencyDetected demoEnv (db ?cs)"
    by (simp add: demoEnv_def demoCS_def)
  note inst = AcceptBlock_inconsistent [OF h, of "demoBlock 6 5 600"
      "[demoBlock 6 5 600, demoBlock 7 5 600]"]
  from inst have "AcceptBlock demoEnv ?cs (demoBlock 6 5 600) =
       (Returns (Some (errorsNew ''inconsistent database'')),
        emit [MuLock, DbView, InconsistencyDetected, MuUnlock] ?cs)"
    by blast
  then have a: "AcceptBlock demoEnv ?cs (demoBlock 6 5 600) =
       (Returns (Some (errorsNew ''inconsistent database'')),
        \<lparr>db = (2, [1, 5]), dosBlocks = {7}, changeLog = [],
         events = [MuLock, DbView, InconsistencyDetected, MuUnlock]\<rparr>)"
    by (simp add: demoCS_def emit_def)
  from inst have "fst (AcceptBlocks demoEnv ?cs [demoBlock 6 5 600, demoBlock 7 5 600]) =
       replicate (length [demoBlock 6 5 600, demoBlock 7 5 600])
         (Returns (Some (errorsNew ''inconsistent database'')))"
    by blast
  then have b: "fst (AcceptBlocks demoEnv ?cs [demoBlock 6 5 600, demoBlock 7 5 600]) =
       [Returns (Some (errorsNew ''inconsistent database'')),
        Returns (Some (errorsNew ''inconsistent database''))]"
    by (simp add: numeral_2_eq_2 del: AcceptBlocks.simps)
  from h a b show ?thesis by blast
qed


lemma specEnv_kept [simp]:
  "DEBUG (specEnv marshal childTarget E) = DEBUG E"
  "ID (specEnv marshal childTarget E) = ID E"
  "FutureThreshold (specEnv marshal childTarget E) = FutureThreshold E"
  "Unmarshal (specEnv marshal childTarget E) = Unmarshal E"
  "minimumValidChildTimestamp (specEnv marshal childTarget E) = minimumValidChildTimestamp E"
  "ValidateBlock (specEnv marshal childTarget E) = ValidateBlock E"
  "heavierThan (specEnv marshal childTarget E) = heavierThan E"
  by (simp_all add: specEnv_def)

lemma specEnv_store [simp]:
  "inconsistencyDetected (specEnv marshal childTarget E) = Corrupted"
  "BucketBlockMap (specEnv marshal childTarget E) tx = Some (StoreBlockMap tx)"
  "getBlockMap (specEnv marshal childTarget E) = specGetBlockMap (Unmarshal E)"
  "currentProcessedBlock (specEnv marshal childTarget E) = specCurrentProcessedBlock (Unmarshal E)"
  "newChild (specEnv marshal childTarget E) = specNewChild marshal childTarget (ID E)"
  "forkBlockchain (specEnv marshal childTarget E) = specForkBlockchain (Unmarshal E) (ID E)"
  by (simp_all add: specEnv_def)

lemma validateHeader_passed:
  assumes "snd (validateHeader E cs tx b) = None"
  shows "ID E b \<notin> dosBlocks cs
         \<and> (\<exists>blockMap parentBytes parent.
               BucketBlockMap E tx = Some blockMap \<and> blockMap (ID E b) = None
               \<and> blockMap (ParentID b) = Some parentBytes
               \<and> Unmarshal E parentBytes = Inr parent)"
proof (cases "ID E b \<in> dosBlocks cs")
  case True
  with assms show ?thesis by (simp add: validateHeader_def)
next
  case nodos: False
  show ?thesis
  proof (cases "BucketBlockMap E tx")
    case None
    with assms nodos show ?thesis by (simp add: validateHeader_def Let_def)
  next
    case (Some bm)
    show ?thesis
    proof (cases "bm (ID E b)")
      case known: (Some bs)
      with assms nodos Some show ?thesis by (simp add: validateHeader_def Let_def)
    next
      case unknown: None
      show ?thesis
      proof (cases "bm (ParentID b)")
        case None
        with assms nodos Some unknown show ?thesis by (simp add: validateHeader_def Let_def)
      next
        case parent: (Some pbytes)
        show ?thesis
        proof (cases "Unmarshal E pbytes")
          case (Inl e)
          with assms nodos Some unknown parent show ?thesis
            by (simp add: validateHeader_def Let_def)
        next
          case (Inr p)
          with nodos Some unknown parent show ?thesis by simp
        qed
      qed
    qed
  qed
qed

lemma spec_parent_record:
  assumes "snd (validateHeader (specEnv marshal childTarget E0) cs tx b) = None"
  shows "\<exists>parent. specGetBlockMap (Unmarshal E0) tx (ParentID b) = (Some parent, None)
                  \<and> storedRecord (Unmarshal E0) tx (ParentID b) = Some parent"
  using validateHeader_passed [OF assms]
  by (auto simp: specGetBlockMap_def storedRecord_def)

lemma specNewChild_store:
  assumes "specNewChild marshal childTarget idOf tx pb b = (newNode, tx1)"
  shows "StoreBlockMap tx1 = (StoreBlockMap tx)(idOf b \<mapsto> marshal newNode)"
    and "CurrentTip tx1 = CurrentTip tx"
    and "Corrupted tx1 = Corrupted tx"
    and "Block newNode = b"
    and "pb = Some parent \<Longrightarrow> Height newNode = Height parent + 1"
    and "pb = Some parent \<Longrightarrow> ChildTarget newNode = childTarget parent b"
  using assms by (auto simp: specNewChild_def Let_def)

lemma specForkBlockchain_store:
  "\<exists>reverted applied.
     specForkBlockchain unmarshal idOf tx newNode =
       Inr (reverted, applied, tx\<lparr>CurrentTip := idOf (Block newNode)\<rparr>)"
  by (simp add: specForkBlockchain_def Let_def)

text \<open>What the tree insertion does to the spec store for a block that passed validation.\<close>

lemma spec_addBlockToTree:
  fixes cs :: "store ConsensusSet"
  assumes valid: "snd (validateHeader (specEnv marshal childTarget E0) cs (db cs) b) = None"
  defines "E \<equiv> specEnv marshal childTarget E0"
  defines "newNode \<equiv> fst (newChild E (db cs) (fst (getBlockMap E (db cs) (ParentID b))) b)"
  defines "tx1 \<equiv> snd (newChild E (db cs) (fst (getBlockMap E (db cs) (ParentID b))) b)"
  shows "(\<not> heavierThan E newNode (currentProcessedBlock E (db cs)) \<and>
          addBlockToTree E cs b =
            (Returns (Inl ErrNonExtendingBlock), emit [DbUpdate, TxCommit] (cs\<lparr>db := tx1\<rparr>)))
       \<or> (heavierThan E newNode (currentProcessedBlock E (db cs)) \<and>
           (\<exists>reverted applied.
              addBlockToTree E cs b =
                (Returns (Inr (reverted, applied)),
                 emit [DbUpdate, TxCommit] (cs\<lparr>db := tx1\<lparr>CurrentTip := ID E (Block newNode)\<rparr>\<rparr>))))"
proof -
  obtain parent where p: "specGetBlockMap (Unmarshal E0) (db cs) (ParentID b) = (Some parent, None)"
    using spec_parent_record [OF valid] by blast
  obtain reverted applied where
    f: "specForkBlockchain (Unmarshal E0) (ID E0) tx1 newNode =
          Inr (reverted, applied, tx1\<lparr>CurrentTip := ID E0 (Block newNode)\<rparr>)"
    using specForkBlockchain_store by blast
  have nc: "specNewChild marshal childTarget (ID E0) (db cs) (Some parent) b = (newNode, tx1)"
    by (simp add: newNode_def tx1_def E_def p)
  show ?thesis
  proof (cases "heavierThan E newNode (currentProcessedBlock E (db cs))")
    case True
    then have "addBlockToTree E cs b =
                (Returns (Inr (reverted, applied)),
                 emit [DbUpdate, TxCommit] (cs\<lparr>db := tx1\<lparr>CurrentTip := ID E (Block newNode)\<rparr>\<rparr>))"
      using p nc f by (simp add: addBlockToTree_def E_def)
    with True show ?thesis by blast
  next
    case False
    then have "addBlockToTree E cs b =
            (Returns (Inl ErrNonExtendingBlock), emit [DbUpdate, TxCommit] (cs\<lparr>db := tx1\<rparr>))"
      using p nc by (simp add: addBlockToTree_def E_def)
    with False show ?thesis by blast
  qed
qed

lemmas demoSpec_defs = demoSpecEnv_def demoCapabilities_def demoStoreCS_def demoBlock_def
  demoMarshal_def demoUnmarshal_def specEnv_def specGetBlockMap_def specNewChild_def
  specCurrentProcessedBlock_def specForkBlockchain_def storedRecord_def zeroProcessedBlock_def
  AcceptBlock_def addBlockToTree_def viewBody_def validateHeader_def emit_def Let_def

lemma upwardPath_numeral:
  "upwardPath (numeral k) look n =
     n # (case look (ParentID (Block n)) of
            None \<Rightarrow> []
          | Some p \<Rightarrow> upwardPath (pred_numeral k) look p)"
  by (simp add: numeral_eq_Suc)

text \<open>
  C1. On the store of the specification, a block that passes the consistency check and
  header validation and whose new node is not heavier than the current node: the
  read-write transaction is committed, so the store holds the new node's record (the
  block, the parent's height plus one, the child target) under the block's identifier
  and every record it held before; the result is \<open>ErrNonExtendingBlock\<close>, the lock is
  released, the current pointer is the same, the change log gets no entry and the
  subscribers get no update.
\<close>

theorem AcceptBlock_nonExtending:
  fixes cs :: "store ConsensusSet"
  assumes E: "E = specEnv marshal childTarget E0"
    and consistent: "\<not> inconsistencyDetected E (db cs)"
    and valid: "validateHeader E cs (db cs) b = (evs, None)"
    and child: "newChild E (db cs) (fst (getBlockMap E (db cs) (ParentID b))) b = (newNode, tx1)"
    and lighter: "\<not> heavierThan E newNode (currentProcessedBlock E (db cs))"
  shows "AcceptBlock E cs b =
           (Returns (Some ErrNonExtendingBlock),
            emit ([MuLock, DbView, InconsistencyDetected] @ evs @ [DbUpdate, TxCommit, MuUnlock])
              (cs\<lparr>db := tx1\<rparr>))
         \<and> StoreBlockMap (db (snd (AcceptBlock E cs b))) =
             (StoreBlockMap (db cs))(ID E b \<mapsto> marshal newNode)
         \<and> Block newNode = b
         \<and> (\<exists>parent. storedRecord (Unmarshal E) (db cs) (ParentID b) = Some parent
                \<and> Height newNode = Height parent + 1
                \<and> ChildTarget newNode = childTarget parent b)
         \<and> blockInStore E (db (snd (AcceptBlock E cs b))) (ID E b)
         \<and> CurrentTip (db (snd (AcceptBlock E cs b))) = CurrentTip (db cs)
         \<and> changeLog (snd (AcceptBlock E cs b)) = changeLog cs
         \<and> notifications (events (snd (AcceptBlock E cs b))) = notifications (events cs)"
proof -
  have vb: "viewBody E cs (db cs) b = (InconsistencyDetected # evs, None)"
    using consistent valid by (simp add: viewBody_cases)
  let ?cs = "emit (MuLock # DbView # InconsistencyDetected # evs) cs"
  have valid': "snd (validateHeader (specEnv marshal childTarget E0) ?cs (db ?cs) b) = None"
    using valid by (simp add: E validateHeader_dosBlocks [of ?cs cs])
  have add: "addBlockToTree E ?cs b =
      (Returns (Inl ErrNonExtendingBlock), emit [DbUpdate, TxCommit] (?cs\<lparr>db := tx1\<rparr>))"
    using spec_addBlockToTree [OF valid'] child lighter by (simp add: E)
  have acc: "AcceptBlock E cs b =
           (Returns (Some ErrNonExtendingBlock),
            emit ([MuLock, DbView, InconsistencyDetected] @ evs @ [DbUpdate, TxCommit, MuUnlock])
              (cs\<lparr>db := tx1\<rparr>))"
    by (simp add: AcceptBlock_view_ok [OF vb] add)
  obtain parent where
    p: "specGetBlockMap (Unmarshal E0) (db cs) (ParentID b) = (Some parent, None)"
    and rec: "storedRecord (Unmarshal E0) (db cs) (ParentID b) = Some parent"
    using spec_parent_record [of marshal childTarget E0 cs "db cs" b] valid by (auto simp: E)
  have nc: "specNewChild marshal childTarget (ID E0) (db cs) (Some parent) b = (newNode, tx1)"
    using child by (simp add: E p)
  note st = specNewChild_store [OF nc]
  have quiet: "notifications evs = []"
    using notifications_validateHeader [of E cs "db cs" b] valid by simp
  have "\<exists>parent. storedRecord (Unmarshal E) (db cs) (ParentID b) = Some parent
                \<and> Height newNode = Height parent + 1
                \<and> ChildTarget newNode = childTarget parent b"
    using rec st(5) [of parent] st(6) [of parent] by (simp add: E)
  then show ?thesis
    using acc st(1) st(2) st(4) quiet
    by (simp add: notifications_append blockInStore_def E)
qed

theorem AcceptBlock_nonExtending_witness:
  "\<not> inconsistencyDetected demoSpecEnv (db demoStoreCS)
   \<and> snd (validateHeader demoSpecEnv demoStoreCS (db demoStoreCS) (demoBlock 3 1 600)) = None
   \<and> fst (AcceptBlock demoSpecEnv demoStoreCS (demoBlock 3 1 600)) =
       Returns (Some ErrNonExtendingBlock)
   \<and> StoreBlockMap (db (snd (AcceptBlock demoSpecEnv demoStoreCS (demoBlock 3 1 600)))) 3 =
       Some [3, 1, 1]
   \<and> CurrentTip (db (snd (AcceptBlock demoSpecEnv demoStoreCS (demoBlock 3 1 600)))) = 5
   \<and> changeLog (snd (AcceptBlock demoSpecEnv demoStoreCS (demoBlock 3 1 600))) = []"
proof -
  let ?b = "demoBlock 3 1 600"
  let ?evs = "[DosBlocksLookup 3, TxBucketBlockMap, BlockMapGet 3, BlockMapGet 1,
               MarshalerUnmarshal [1, 0, 0], MinimumValidChildTimestamp, ValidateBlockCall]"
  let ?n = "\<lparr>Block = ?b, Height = 1, ChildTarget = 0\<rparr>"
  let ?tx1 = "\<lparr>StoreBlockMap = [1 \<mapsto> [1, 0, 0], 5 \<mapsto> [5, 1, 1], 3 \<mapsto> [3, 1, 1]],
              StoreChildren = (\<lambda>i. [])(1 := [5, 3]), CurrentTip = 5, Corrupted = False\<rparr>"
  have h0: "demoSpecEnv = specEnv demoMarshal (\<lambda>parent b. 0) demoCapabilities"
    by (simp add: demoSpecEnv_def)
  have h1: "\<not> inconsistencyDetected demoSpecEnv (db demoStoreCS)"
    by (simp add: demoSpecEnv_def demoStoreCS_def)
  have h2: "validateHeader demoSpecEnv demoStoreCS (db demoStoreCS) ?b = (?evs, None)"
    by (simp add: validateHeader_def demoSpecEnv_def demoCapabilities_def demoStoreCS_def
        demoBlock_def demoUnmarshal_def)
  have h3: "newChild demoSpecEnv (db demoStoreCS)
              (fst (getBlockMap demoSpecEnv (db demoStoreCS) (ParentID ?b))) ?b = (?n, ?tx1)"
    by (simp add: demoSpecEnv_def demoCapabilities_def demoStoreCS_def demoBlock_def
        demoUnmarshal_def demoMarshal_def specGetBlockMap_def specNewChild_def fun_upd_twist)
  have h4: "\<not> heavierThan demoSpecEnv ?n (currentProcessedBlock demoSpecEnv (db demoStoreCS))"
    by (simp add: demoSpecEnv_def demoCapabilities_def demoStoreCS_def demoUnmarshal_def
        specCurrentProcessedBlock_def storedRecord_def)
  note inst = AcceptBlock_nonExtending [OF h0 h1 h2 h3 h4]
  from inst have a: "fst (AcceptBlock demoSpecEnv demoStoreCS ?b) = Returns (Some ErrNonExtendingBlock)"
    by simp
  from inst have "StoreBlockMap (db (snd (AcceptBlock demoSpecEnv demoStoreCS ?b))) =
             (StoreBlockMap (db demoStoreCS))(ID demoSpecEnv ?b \<mapsto> demoMarshal ?n)"
    by blast
  then have s: "StoreBlockMap (db (snd (AcceptBlock demoSpecEnv demoStoreCS ?b))) 3 = Some [3, 1, 1]"
    by (simp add: demoSpecEnv_def demoCapabilities_def demoBlock_def demoMarshal_def)
  from inst have "CurrentTip (db (snd (AcceptBlock demoSpecEnv demoStoreCS ?b))) =
      CurrentTip (db demoStoreCS)"
    by blast
  then have t: "CurrentTip (db (snd (AcceptBlock demoSpecEnv demoStoreCS ?b))) = 5"
    by (simp add: demoStoreCS_def)
  from inst have "changeLog (snd (AcceptBlock demoSpecEnv demoStoreCS ?b)) = changeLog demoStoreCS"
    by blast
  then have l: "changeLog (snd (AcceptBlock demoSpecEnv demoStoreCS ?b)) = []"
    by (simp add: demoStoreCS_def)
  from h1 h2 a s t l show ?thesis by simp
qed

lemma AcceptBlock_dosBlocks:
  "dosBlocks (snd (AcceptBlock E cs b)) = dosBlocks cs"
proof (cases "snd (viewBody E cs (db cs) b)")
  case None
  then have vb: "viewBody E cs (db cs) b = (fst (viewBody E cs (db cs) b), None)"
    by (simp add: prod_eq_iff)
  from AcceptBlock_shape [OF vb] show ?thesis
    by (elim disjE exE conjE) (simp_all split: if_splits)
next
  case (Some e)
  then have vb: "viewBody E cs (db cs) b = (fst (viewBody E cs (db cs) b), Some e)"
    by (simp add: prod_eq_iff)
  from AcceptBlock_view_error [OF vb] show ?thesis by simp
qed

lemma AcceptBlock_in_dosBlocks:
  assumes "ID E b \<in> dosBlocks cs"
  shows "fst (AcceptBlock E cs b) = Returns (Some errDoSBlock)
         \<or> fst (AcceptBlock E cs b) = Returns (Some (errorsNew ''inconsistent database''))"
proof (cases "inconsistencyDetected E (db cs)")
  case True
  then show ?thesis by (simp add: AcceptBlock_inconsistent_one)
next
  case False
  from AcceptBlock_view_error [OF viewBody_dosBlock [OF assms False]]
  show ?thesis by simp
qed

lemma viewBody_known:
  assumes "\<not> inconsistencyDetected E tx" and "ID E b \<notin> dosBlocks cs"
    and "blockInStore E tx (ID E b)"
  shows "viewBody E cs tx b =
           ([InconsistencyDetected, DosBlocksLookup (ID E b), TxBucketBlockMap,
             BlockMapGet (ID E b)], Some ErrBlockKnown)"
  using assms
  by (auto simp: viewBody_cases validateHeader_def blockInStore_def Let_def split: option.splits)

lemma AcceptBlock_first_valid:
  assumes first: "AcceptBlock E cs b = (Returns r, cs1)"
    and accepted: "r = None \<or> r = Some ErrNonExtendingBlock \<and> snd (validateHeader E cs (db cs) b) = None"
  shows "\<not> inconsistencyDetected E (db cs) \<and> snd (validateHeader E cs (db cs) b) = None"
proof (cases "snd (viewBody E cs (db cs) b)")
  case None
  then show ?thesis by (simp add: viewBody_cases split: if_splits)
next
  case (Some e)
  then have vb: "viewBody E cs (db cs) b = (fst (viewBody E cs (db cs) b), Some e)"
    by (simp add: prod_eq_iff)
  from AcceptBlock_view_error [OF vb] first have r: "r = Some e" by simp
  with accepted have "r = Some ErrNonExtendingBlock" and v: "snd (validateHeader E cs (db cs) b) = None"
    by auto
  with Some r v show ?thesis by (auto simp: viewBody_cases split: if_splits)
qed

text \<open>
  C3. On the store of the specification, after a first acceptance that took the block
  (it returned no error, or it returned \<open>ErrNonExtendingBlock\<close> for a block that passed
  header validation), the block is in the store and accepting it again returns
  \<open>ErrBlockKnown\<close>: the store, the DoS set and the change log are unchanged, there is no
  second change entry, no read-write transaction is opened and the subscribers get
  nothing.
\<close>

theorem AcceptBlock_twice:
  fixes cs :: "store ConsensusSet"
  assumes E: "E = specEnv marshal childTarget E0"
    and first: "AcceptBlock E cs b = (Returns r, cs1)"
    and accepted: "r = None \<or> r = Some ErrNonExtendingBlock \<and> snd (validateHeader E cs (db cs) b) = None"
  shows "AcceptBlock E cs1 b =
           (Returns (Some ErrBlockKnown),
            emit [MuLock, DbView, InconsistencyDetected, DosBlocksLookup (ID E b),
                  TxBucketBlockMap, BlockMapGet (ID E b), MuUnlock] cs1)
         \<and> blockInStore E (db cs1) (ID E b)
         \<and> db (snd (AcceptBlock E cs1 b)) = db cs1
         \<and> dosBlocks (snd (AcceptBlock E cs1 b)) = dosBlocks cs1
         \<and> changeLog (snd (AcceptBlock E cs1 b)) = changeLog cs1
         \<and> notifications (events (snd (AcceptBlock E cs1 b))) = notifications (events cs1)"
proof -
  from AcceptBlock_first_valid [OF first accepted]
  have consistent: "\<not> inconsistencyDetected E (db cs)"
    and valid: "snd (validateHeader E cs (db cs) b) = None" by simp_all
  define evs where "evs = fst (validateHeader E cs (db cs) b)"
  have vb: "viewBody E cs (db cs) b = (InconsistencyDetected # evs, None)"
    using consistent valid by (simp add: viewBody_cases evs_def)
  let ?cs = "emit (MuLock # DbView # InconsistencyDetected # evs) cs"
  let ?newNode = "fst (newChild E (db cs) (fst (getBlockMap E (db cs) (ParentID b))) b)"
  let ?tx1 = "snd (newChild E (db cs) (fst (getBlockMap E (db cs) (ParentID b))) b)"
  have valid': "snd (validateHeader (specEnv marshal childTarget E0) ?cs (db ?cs) b) = None"
    using valid by (simp add: E validateHeader_dosBlocks [of ?cs cs])
  obtain parent where
    p: "specGetBlockMap (Unmarshal E0) (db cs) (ParentID b) = (Some parent, None)"
    using spec_parent_record [of marshal childTarget E0 cs "db cs" b] valid by (auto simp: E)
  have nc: "specNewChild marshal childTarget (ID E0) (db cs) (Some parent) b = (?newNode, ?tx1)"
    by (simp add: E p)
  note st = specNewChild_store [OF nc]
  have stored1: "StoreBlockMap ?tx1 (ID E b) \<noteq> None"
    using st(1) by (simp add: E)
  have clean1: "\<not> Corrupted ?tx1"
    using consistent st(3) by (simp add: E)
  have "StoreBlockMap (db cs1) (ID E b) \<noteq> None \<and> \<not> Corrupted (db cs1)"
  proof -
    from spec_addBlockToTree [OF valid']
    consider
      (nonext) "addBlockToTree E ?cs b =
            (Returns (Inl ErrNonExtendingBlock), emit [DbUpdate, TxCommit] (?cs\<lparr>db := ?tx1\<rparr>))"
    | (ext) reverted applied where "addBlockToTree E ?cs b =
                (Returns (Inr (reverted, applied)),
                 emit [DbUpdate, TxCommit] (?cs\<lparr>db := ?tx1\<lparr>CurrentTip := ID E (Block ?newNode)\<rparr>\<rparr>))"
      by (auto simp: E)
    then show ?thesis
    proof cases
      case nonext
      then have "db cs1 = ?tx1"
        using first by (auto simp: AcceptBlock_view_ok [OF vb])
      with stored1 clean1 show ?thesis by simp
    next
      case ext
      then have "db cs1 = ?tx1\<lparr>CurrentTip := ID E (Block ?newNode)\<rparr>"
        using first by (auto simp: AcceptBlock_view_ok [OF vb] Let_def split: if_splits)
      with stored1 clean1 show ?thesis by simp
    qed
  qed
  then have stored: "blockInStore E (db cs1) (ID E b)"
    and consistent1: "\<not> inconsistencyDetected E (db cs1)"
    by (simp_all add: blockInStore_def E)
  have "ID E b \<notin> dosBlocks cs"
    using validateHeader_passed [OF valid] by blast
  moreover have "dosBlocks cs1 = dosBlocks cs"
    using AcceptBlock_dosBlocks [of E cs b] first by simp
  ultimately have "ID E b \<notin> dosBlocks cs1" by simp
  from AcceptBlock_view_error [OF viewBody_known [OF consistent1 this stored]] stored
  show ?thesis by (simp add: notifications_append)
qed

theorem AcceptBlock_twice_witness:
  "fst (AcceptBlock demoSpecEnv demoStoreCS (demoBlock 6 5 600)) = Returns None
   \<and> changeLog (snd (AcceptBlock demoSpecEnv demoStoreCS (demoBlock 6 5 600))) =
       [\<lparr>revertedBlocks = [], appliedBlocks = [6]\<rparr>]
   \<and> fst (AcceptBlock demoSpecEnv (snd (AcceptBlock demoSpecEnv demoStoreCS (demoBlock 6 5 600)))
           (demoBlock 6 5 600)) = Returns (Some ErrBlockKnown)
   \<and> changeLog (snd (AcceptBlock demoSpecEnv
           (snd (AcceptBlock demoSpecEnv demoStoreCS (demoBlock 6 5 600))) (demoBlock 6 5 600))) =
       [\<lparr>revertedBlocks = [], appliedBlocks = [6]\<rparr>]
   \<and> fst (AcceptBlock demoSpecEnv demoStoreCS (demoBlock 3 1 600)) =
       Returns (Some ErrNonExtendingBlock)
   \<and> fst (AcceptBlock demoSpecEnv (snd (AcceptBlock demoSpecEnv demoStoreCS (demoBlock 3 1 600)))
           (demoBlock 3 1 600)) = Returns (Some ErrBlockKnown)"
proof -
  let ?b = "demoBlock 6 5 600"
  let ?c = "demoBlock 3 1 600"
  let ?cs1 = "snd (AcceptBlock demoSpecEnv demoStoreCS ?b)"
  let ?cs2 = "snd (AcceptBlock demoSpecEnv demoStoreCS ?c)"
  have h0: "demoSpecEnv = specEnv demoMarshal (\<lambda>parent b. 0) demoCapabilities"
    by (simp add: demoSpecEnv_def)
  have r1: "fst (AcceptBlock demoSpecEnv demoStoreCS ?b) = Returns None"
    by (simp add: demoSpec_defs upwardPath_numeral)
  have l1: "changeLog ?cs1 = [\<lparr>revertedBlocks = [], appliedBlocks = [6]\<rparr>]"
    by (simp add: demoSpec_defs upwardPath_numeral)
  have h1: "AcceptBlock demoSpecEnv demoStoreCS ?b = (Returns None, ?cs1)"
    using r1 by (simp add: prod_eq_iff)
  have h2: "(None :: error option) = None
     \<or> None = Some ErrNonExtendingBlock
       \<and> snd (validateHeader demoSpecEnv demoStoreCS (db demoStoreCS) ?b) = None"
    by simp
  note inst1 = AcceptBlock_twice [OF h0 h1 h2]
  from inst1 have a1: "fst (AcceptBlock demoSpecEnv ?cs1 ?b) = Returns (Some ErrBlockKnown)"
    by simp
  from inst1 have "changeLog (snd (AcceptBlock demoSpecEnv ?cs1 ?b)) = changeLog ?cs1"
    by blast
  with l1 have a2: "changeLog (snd (AcceptBlock demoSpecEnv ?cs1 ?b)) =
      [\<lparr>revertedBlocks = [], appliedBlocks = [6]\<rparr>]"
    by simp
  have r2: "fst (AcceptBlock demoSpecEnv demoStoreCS ?c) = Returns (Some ErrNonExtendingBlock)"
    by (simp add: demoSpec_defs)
  have k1: "AcceptBlock demoSpecEnv demoStoreCS ?c = (Returns (Some ErrNonExtendingBlock), ?cs2)"
    using r2 by (simp add: prod_eq_iff)
  have v: "snd (validateHeader demoSpecEnv demoStoreCS (db demoStoreCS) ?c) = None"
    by (simp add: validateHeader_def demoSpecEnv_def demoCapabilities_def demoStoreCS_def
        demoBlock_def demoUnmarshal_def)
  then have k2: "Some ErrNonExtendingBlock = None
     \<or> Some ErrNonExtendingBlock = Some ErrNonExtendingBlock
       \<and> snd (validateHeader demoSpecEnv demoStoreCS (db demoStoreCS) ?c) = None"
    by simp
  from AcceptBlock_twice [OF h0 k1 k2]
  have b1: "fst (AcceptBlock demoSpecEnv ?cs2 ?c) = Returns (Some ErrBlockKnown)"
    by simp
  from r1 l1 a1 a2 r2 b1 show ?thesis by simp
qed

lemma AcceptBlock_outcomes:
  assumes acc: "AcceptBlock E cs b = (r, cs')"
  shows "(\<exists>p. r = Panics p \<and> notifications (events cs') = notifications (events cs))
       \<or> (\<exists>e. r = Returns (Some e) \<and> changeLog cs' = changeLog cs
              \<and> notifications (events cs') = notifications (events cs))
       \<or> (\<exists>reverted applied tx2 ce.
             r = Returns None
             \<and> forkBlockchain E
                  (snd (newChild E (db cs) (fst (getBlockMap E (db cs) (ParentID b))) b))
                  (fst (newChild E (db cs) (fst (getBlockMap E (db cs) (ParentID b))) b))
                  = Inr (reverted, applied, tx2)
             \<and> (DEBUG E \<longrightarrow> applied = [] \<longrightarrow> reverted = [])
             \<and> ce = \<lparr>revertedBlocks = map (\<lambda>rn. ID E (Block rn)) reverted,
                      appliedBlocks = map (\<lambda>an. ID E (Block an)) applied\<rparr>
             \<and> db cs' = tx2
             \<and> changeLog cs' = changeLog cs @ [ce]
             \<and> notifications (events cs') =
                 notifications (events cs) @ (if applied = [] then [] else [ce]))"
    (is "?panic \<or> ?error \<or> ?ok")
proof (cases "snd (viewBody E cs (db cs) b)")
  case None
  define evs where "evs = fst (viewBody E cs (db cs) b)"
  have vb: "viewBody E cs (db cs) b = (evs, None)"
    using None by (simp add: evs_def prod_eq_iff)
  have quiet: "notifications evs = []"
    by (simp add: evs_def notifications_viewBody)
  from AcceptBlock_shape [OF vb] show ?thesis
  proof (elim disjE exE conjE)
    fix p
    assume "AcceptBlock E cs b =
              (Panics p, emit (MuLock # DbView # evs @ [DbUpdate, TxRollback]) cs)"
    with acc quiet have ?panic by (auto simp: notifications_append)
    then show ?thesis by blast
  next
    fix e
    assume "AcceptBlock E cs b =
              (Returns (Some e), emit (MuLock # DbView # evs @ [DbUpdate, TxRollback, MuUnlock]) cs)"
    with acc quiet have ?error by (auto simp: notifications_append)
    then show ?thesis by blast
  next
    fix tx1
    assume "AcceptBlock E cs b =
              (Returns (Some ErrNonExtendingBlock),
               emit (MuLock # DbView # evs @ [DbUpdate, TxCommit, MuUnlock]) (cs\<lparr>db := tx1\<rparr>))"
    with acc quiet have ?error by (auto simp: notifications_append)
    then show ?thesis by blast
  next
    fix reverted applied :: "processedBlock list" and tx2
    let ?ce = "\<lparr>revertedBlocks = map (\<lambda>rn. ID E (Block rn)) reverted,
                appliedBlocks = map (\<lambda>an. ID E (Block an)) applied\<rparr>"
    assume fork: "forkBlockchain E
           (snd (newChild E (db cs) (fst (getBlockMap E (db cs) (ParentID b))) b))
           (fst (newChild E (db cs) (fst (getBlockMap E (db cs) (ParentID b))) b))
           = Inr (reverted, applied, tx2)"
      and res: "AcceptBlock E cs b =
             (if DEBUG E \<and> applied = [] \<and> reverted \<noteq> []
              then (Panics (PanicString ''appliedBlocks and revertedBlocks are mismatched!''),
                    emit (MuLock # DbView # evs @ [DbUpdate, TxCommit, MuDemote, MuDemotedUnlock])
                      (cs\<lparr>db := tx2,
                          changeLog := changeLog cs @
                            [\<lparr>revertedBlocks = map (\<lambda>rn. ID E (Block rn)) reverted,
                              appliedBlocks = []\<rparr>]\<rparr>))
              else (Returns None,
                    emit (MuLock # DbView # evs @ [DbUpdate, TxCommit, MuDemote]
                          @ (if applied = [] then []
                             else [ReadlockUpdateSubscribers ?ce])
                          @ [GoBroadcast b, MuDemotedUnlock])
                      (cs\<lparr>db := tx2, changeLog := changeLog cs @ [?ce]\<rparr>)))"
    show ?thesis
    proof (cases "DEBUG E \<and> applied = [] \<and> reverted \<noteq> []")
      case True
      with res acc quiet have ?panic by (auto simp: notifications_append)
      then show ?thesis by blast
    next
      case False
      with res acc have r: "r = Returns None"
        and cs': "cs' = emit (MuLock # DbView # evs @ [DbUpdate, TxCommit, MuDemote]
                          @ (if applied = [] then []
                             else [ReadlockUpdateSubscribers ?ce])
                          @ [GoBroadcast b, MuDemotedUnlock])
                      (cs\<lparr>db := tx2, changeLog := changeLog cs @ [?ce]\<rparr>)"
        by simp_all
      have sym: "DEBUG E \<longrightarrow> applied = [] \<longrightarrow> reverted = []"
        using False by blast
      have d: "db cs' = tx2" and l: "changeLog cs' = changeLog cs @ [?ce]"
        by (simp_all add: cs')
      have n: "notifications (events cs') =
                 notifications (events cs) @ (if applied = [] then [] else [?ce])"
        by (simp add: cs' notifications_append quiet)
      from r fork sym d l n have ?ok by blast
      then show ?thesis by blast
    qed
  qed
next
  case (Some e)
  define evs where "evs = fst (viewBody E cs (db cs) b)"
  have vb: "viewBody E cs (db cs) b = (evs, Some e)"
    using Some by (simp add: evs_def prod_eq_iff)
  have quiet: "notifications evs = []"
    by (simp add: evs_def notifications_viewBody)
  from AcceptBlock_view_error [OF vb] acc quiet have ?error
    by (auto simp: notifications_append)
  then show ?thesis by blast
qed




text \<open>
  C9. An acceptance that returns without error has appended exactly one change entry,
  made of the identifiers of the blocks \<open>forkBlockchain\<close> reverted and applied, and has
  sent that entry to the subscribers exactly when its applied list is not empty. An
  acceptance that returns an error (\<open>ErrNonExtendingBlock\<close> too) appends nothing and
  sends nothing.
\<close>

theorem AcceptBlock_changeLog_subscribers:
  assumes "AcceptBlock E cs b = (r, cs')"
  shows "(r = Returns None \<longrightarrow>
           (\<exists>reverted applied tx2 ce.
              forkBlockchain E
                (snd (newChild E (db cs) (fst (getBlockMap E (db cs) (ParentID b))) b))
                (fst (newChild E (db cs) (fst (getBlockMap E (db cs) (ParentID b))) b))
                = Inr (reverted, applied, tx2)
              \<and> ce = \<lparr>revertedBlocks = map (\<lambda>rn. ID E (Block rn)) reverted,
                       appliedBlocks = map (\<lambda>an. ID E (Block an)) applied\<rparr>
              \<and> changeLog cs' = changeLog cs @ [ce]
              \<and> notifications (events cs') =
                  notifications (events cs) @ (if appliedBlocks ce = [] then [] else [ce])))
         \<and> (\<forall>e. r = Returns (Some e) \<longrightarrow>
               changeLog cs' = changeLog cs
               \<and> notifications (events cs') = notifications (events cs))"
proof -
  from AcceptBlock_outcomes [OF assms] show ?thesis
  proof (elim disjE exE conjE)
    fix p
    assume "r = Panics p"
    then show ?thesis by simp
  next
    fix e
    assume "r = Returns (Some e)" "changeLog cs' = changeLog cs"
      "notifications (events cs') = notifications (events cs)"
    then show ?thesis by simp
  next
    fix reverted applied tx2 ce
    assume r: "r = Returns None"
      and fork: "forkBlockchain E
                (snd (newChild E (db cs) (fst (getBlockMap E (db cs) (ParentID b))) b))
                (fst (newChild E (db cs) (fst (getBlockMap E (db cs) (ParentID b))) b))
                = Inr (reverted, applied, tx2)"
      and ce: "ce = \<lparr>revertedBlocks = map (\<lambda>rn. ID E (Block rn)) reverted,
                       appliedBlocks = map (\<lambda>an. ID E (Block an)) applied\<rparr>"
      and log: "changeLog cs' = changeLog cs @ [ce]"
      and sent: "notifications (events cs') =
                  notifications (events cs) @ (if applied = [] then [] else [ce])"
    have "(appliedBlocks ce = []) = (applied = [])"
      by (simp add: ce)
    with sent have sent': "notifications (events cs') =
                  notifications (events cs) @ (if appliedBlocks ce = [] then [] else [ce])"
      by simp
    from fork ce log sent' have
      "\<exists>reverted applied tx2 ce.
              forkBlockchain E
                (snd (newChild E (db cs) (fst (getBlockMap E (db cs) (ParentID b))) b))
                (fst (newChild E (db cs) (fst (getBlockMap E (db cs) (ParentID b))) b))
                = Inr (reverted, applied, tx2)
              \<and> ce = \<lparr>revertedBlocks = map (\<lambda>rn. ID E (Block rn)) reverted,
                       appliedBlocks = map (\<lambda>an. ID E (Block an)) applied\<rparr>
              \<and> changeLog cs' = changeLog cs @ [ce]
              \<and> notifications (events cs') =
                  notifications (events cs) @ (if appliedBlocks ce = [] then [] else [ce])"
      by blast
    with r show ?thesis by simp
  qed
qed

theorem AcceptBlock_changeLog_subscribers_witness:
  "AcceptBlock demoEnv demoCS (demoBlock 9 1 600) =
     (Returns None,
      \<lparr>db = (9, [1, 5, 9]), dosBlocks = {7},
       changeLog = [\<lparr>revertedBlocks = [5], appliedBlocks = [9]\<rparr>],
       events = [MuLock, DbView, InconsistencyDetected, DosBlocksLookup 9, TxBucketBlockMap,
                 BlockMapGet 9, BlockMapGet 1, MarshalerUnmarshal [1],
                 MinimumValidChildTimestamp, ValidateBlockCall, DbUpdate, TxCommit, MuDemote,
                 ReadlockUpdateSubscribers \<lparr>revertedBlocks = [5], appliedBlocks = [9]\<rparr>,
                 GoBroadcast (demoBlock 9 1 600), MuDemotedUnlock]\<rparr>)
   \<and> notifications (events (snd (AcceptBlock demoEnv demoCS (demoBlock 9 1 600)))) =
       [\<lparr>revertedBlocks = [5], appliedBlocks = [9]\<rparr>]
   \<and> AcceptBlock demoEnv demoCS (demoBlock 3 1 600) =
       (Returns (Some ErrNonExtendingBlock),
        \<lparr>db = (5, [1, 5, 3]), dosBlocks = {7}, changeLog = [],
         events = [MuLock, DbView, InconsistencyDetected, DosBlocksLookup 3, TxBucketBlockMap,
                   BlockMapGet 3, BlockMapGet 1, MarshalerUnmarshal [1],
                   MinimumValidChildTimestamp, ValidateBlockCall,
                   DbUpdate, TxCommit, MuUnlock]\<rparr>)
   \<and> notifications (events (snd (AcceptBlock demoEnv demoCS (demoBlock 3 1 600)))) = []"
proof -
  let ?b = "demoBlock 9 1 600"
  let ?cs' = "\<lparr>db = (9, [1, 5, 9]), dosBlocks = {7},
       changeLog = [\<lparr>revertedBlocks = [5], appliedBlocks = [9]\<rparr>],
       events = [MuLock, DbView, InconsistencyDetected, DosBlocksLookup 9, TxBucketBlockMap,
                 BlockMapGet 9, BlockMapGet 1, MarshalerUnmarshal [1],
                 MinimumValidChildTimestamp, ValidateBlockCall, DbUpdate, TxCommit, MuDemote,
                 ReadlockUpdateSubscribers \<lparr>revertedBlocks = [5], appliedBlocks = [9]\<rparr>,
                 GoBroadcast ?b, MuDemotedUnlock]\<rparr> :: demoStore ConsensusSet"
  let ?c = "demoBlock 3 1 600"
  let ?cs'' = "\<lparr>db = (5, [1, 5, 3]), dosBlocks = {7}, changeLog = [],
         events = [MuLock, DbView, InconsistencyDetected, DosBlocksLookup 3, TxBucketBlockMap,
                   BlockMapGet 3, BlockMapGet 1, MarshalerUnmarshal [1],
                   MinimumValidChildTimestamp, ValidateBlockCall,
                   DbUpdate, TxCommit, MuUnlock]\<rparr> :: demoStore ConsensusSet"
  have h1: "AcceptBlock demoEnv demoCS ?b = (Returns None, ?cs')"
    by (simp add: demo_defs)
  have h2: "AcceptBlock demoEnv demoCS ?c = (Returns (Some ErrNonExtendingBlock), ?cs'')"
    by (simp add: demo_defs)
  from AcceptBlock_changeLog_subscribers [OF h1]
  have n1: "notifications (events ?cs') = [\<lparr>revertedBlocks = [5], appliedBlocks = [9]\<rparr>]"
    by simp
  from AcceptBlock_changeLog_subscribers [OF h2]
  have n2: "notifications (events ?cs'') = notifications (events demoCS)"
    by blast
  from h1 h2 n1 n2 show ?thesis by (simp add: demoCS_def)
qed









end
